theory Spec2Isabelle
  imports Main
begin

section \<open>JavaScript values\<close>

text \<open>
  The Figma document and the webhook payload are results of \<^verbatim>\<open>JSON.parse\<close>. A value is
  modelled by \<open>json\<close>; \<open>JUndefined\<close> is the value \<^verbatim>\<open>undefined\<close> that a missing
  property reads as.
  \<^item> A string is its UTF-8 byte sequence (\<open>char\<close> is a byte).
  \<^item> A number is carried as the text ECMAScript's \<^verbatim>\<open>Number::toString\<close> prints for it
    (\<open>JNum ''16''\<close>, \<open>JNum ''0.5''\<close>); the program only prints numbers and tests them for
    truthiness, and \<^verbatim>\<open>-0\<close> prints as \<^verbatim>\<open>0\<close>.
  \<^item> An object is the list of its own properties in enumeration order, no key twice.
\<close>

datatype json =
    JUndefined
  | JNull
  | JBool bool
  | JNum string
  | JStr string
  | JArr "json list"
  | JObj "(string \<times> json) list"

text \<open>
  A thrown value. \<open>TypeError\<close> is the engine's own error (its message is engine text and is
  left out); \<open>Error m\<close> is \<^verbatim>\<open>new Error(m)\<close>; \<open>Rejection d\<close> is a rejection raised by a
  library (node-fetch, Octokit), described by \<open>d\<close>.
\<close>

datatype thrown = TypeError | Error string | Rejection string

text \<open>ToBoolean.\<close>

fun truthy :: "json \<Rightarrow> bool" where
  "truthy JUndefined = False"
| "truthy JNull = False"
| "truthy (JBool b) = b"
| "truthy (JNum s) = (s \<noteq> ''0'' \<and> s \<noteq> ''NaN'')"
| "truthy (JStr s) = (s \<noteq> [])"
| "truthy (JArr xs) = True"
| "truthy (JObj kvs) = True"

text \<open>\<^verbatim>\<open>a || b\<close>\<close>

definition js_or :: "json \<Rightarrow> json \<Rightarrow> json" where
  "js_or a b = (if truthy a then a else b)"

text \<open>
  \<^verbatim>\<open>v.k\<close> for a property name \<open>k\<close> that no built-in prototype defines (the program
  reads \<^verbatim>\<open>document\<close>, \<^verbatim>\<open>children\<close>, \<^verbatim>\<open>type\<close>, \<^verbatim>\<open>name\<close>, \<^verbatim>\<open>event_type\<close>,
  \<^verbatim>\<open>file_key\<close>, \<^verbatim>\<open>file_id\<close>): a TypeError on \<^verbatim>\<open>null\<close> and \<^verbatim>\<open>undefined\<close>, the own
  property of an object, \<^verbatim>\<open>undefined\<close> otherwise.
\<close>

fun getProp :: "json \<Rightarrow> string \<Rightarrow> thrown + json" where
  "getProp JUndefined k = Inl TypeError"
| "getProp JNull k = Inl TypeError"
| "getProp (JObj kvs) k = Inr (case map_of kvs k of None \<Rightarrow> JUndefined | Some v \<Rightarrow> v)"
| "getProp v k = Inr JUndefined"

text \<open>\<^verbatim>\<open>v?.k\<close>: \<^verbatim>\<open>undefined\<close> on \<^verbatim>\<open>null\<close> and \<^verbatim>\<open>undefined\<close>, never a throw.\<close>

fun optProp :: "json \<Rightarrow> string \<Rightarrow> json" where
  "optProp (JObj kvs) k = (case map_of kvs k of None \<Rightarrow> JUndefined | Some v \<Rightarrow> v)"
| "optProp v k = JUndefined"

text \<open>
  \<^verbatim>\<open>v?.[0]\<close>: the first element of an array, the first unit of a non-empty string (a
  string again), the own property \<^verbatim>\<open>"0"\<close> of an object.
\<close>

fun optIndex0 :: "json \<Rightarrow> json" where
  "optIndex0 (JArr xs) = (case xs of [] \<Rightarrow> JUndefined | x # _ \<Rightarrow> x)"
| "optIndex0 (JStr s) = (if s = [] then JUndefined else JStr (take 1 s))"
| "optIndex0 (JObj kvs) = (case map_of kvs ''0'' of None \<Rightarrow> JUndefined | Some v \<Rightarrow> v)"
| "optIndex0 v = JUndefined"

subsection \<open>Decimal numerals\<close>

definition digit :: "nat \<Rightarrow> char" where
  "digit d = ''0123456789'' ! (d mod 10)"

function show_nat :: "nat \<Rightarrow> string" where
  "show_nat n = (if n < 10 then [digit n] else show_nat (n div 10) @ [digit (n mod 10)])"
  by pat_completeness auto
termination
  by (relation "measure id") auto

declare show_nat.simps [simp del]

subsection \<open>\<^verbatim>\<open>JSON.stringify(value, null, 2)\<close>\<close>

definition hexdigit :: "nat \<Rightarrow> char" where
  "hexdigit d = ''0123456789abcdef'' ! (d mod 16)"

text \<open>QuoteJSONString, one unit at a time.\<close>

definition quote_char :: "char \<Rightarrow> string" where
  "quote_char c =
     (if c = CHR 0x08 then [CHR 0x5C, CHR ''b'']
      else if c = CHR 0x09 then [CHR 0x5C, CHR ''t'']
      else if c = CHR 0x0A then [CHR 0x5C, CHR ''n'']
      else if c = CHR 0x0C then [CHR 0x5C, CHR ''f'']
      else if c = CHR 0x0D then [CHR 0x5C, CHR ''r'']
      else if c = CHR 0x22 then [CHR 0x5C, CHR 0x22]
      else if c = CHR 0x5C then [CHR 0x5C, CHR 0x5C]
      else if of_char c < (32::nat)
        then [CHR 0x5C, CHR ''u'', CHR ''0'', CHR ''0'',
              hexdigit (of_char c div 16), hexdigit (of_char c mod 16)]
      else [c])"

definition quote :: "string \<Rightarrow> string" where
  "quote s = [CHR 0x22] @ concat (map quote_char s) @ [CHR 0x22]"

fun join :: "string \<Rightarrow> string list \<Rightarrow> string" where
  "join sep [] = []"
| "join sep [x] = x"
| "join sep (x # y # ys) = x @ sep @ join sep (y # ys)"

definition gap :: string where
  "gap = ''  ''"

text \<open>
  SerializeJSONProperty at indentation \<open>ind\<close>; \<open>None\<close> is the result \<^verbatim>\<open>undefined\<close>. An
  array prints \<^verbatim>\<open>null\<close> for such an element, an object leaves the property out. No
  value of a parsed document is callable, so \<^verbatim>\<open>toJSON\<close> never applies.
\<close>

fun ser :: "string \<Rightarrow> json \<Rightarrow> string option" where
  "ser ind JUndefined = None"
| "ser ind JNull = Some ''null''"
| "ser ind (JBool b) = Some (if b then ''true'' else ''false'')"
| "ser ind (JNum s) =
     Some (if s = ''NaN'' \<or> s = ''Infinity'' \<or> s = ''-Infinity'' then ''null'' else s)"
| "ser ind (JStr s) = Some (quote s)"
| "ser ind (JArr xs) =
     Some (if xs = [] then ''[]''
           else ''['' @ ''\<newline>'' @ (ind @ gap)
             @ join ('','' @ ''\<newline>'' @ (ind @ gap))
                 (map (\<lambda>x. case ser (ind @ gap) x of None \<Rightarrow> ''null'' | Some t \<Rightarrow> t) xs)
             @ ''\<newline>'' @ ind @ '']'')"
| "ser ind (JObj kvs) =
     (let partial =
        concat (map (\<lambda>kv. case ser (ind @ gap) (snd kv) of
                              None \<Rightarrow> []
                            | Some t \<Rightarrow> [quote (fst kv) @ '': '' @ t]) kvs)
      in Some (if partial = [] then ''{}''
               else ''{'' @ ''\<newline>'' @ (ind @ gap)
                 @ join ('','' @ ''\<newline>'' @ (ind @ gap)) partial
                 @ ''\<newline>'' @ ind @ ''}''))"

definition stringify2 :: "json \<Rightarrow> string option" where
  "stringify2 v = ser [] v"

section \<open>Configuration\<close>

text \<open>
  The environment variables the program destructures from \<^verbatim>\<open>process.env\<close>.
  \<open>CODEGEN_TARGET\<close> is the value after defaulting (\<^verbatim>\<open>"."\<close> in the root server,
  \<^verbatim>\<open>"apps/tma"\<close> in \<^verbatim>\<open>tools/figma-sync/server.js\<close>).
\<close>

record config =
  FIGMA_TOKEN :: string
  FIGMA_FILE_ID :: string
  GH_TOKEN :: string
  GH_OWNER :: string
  GH_REPO :: string
  CODEGEN_TARGET :: string

section \<open>Code generator\<close>

text \<open>
  \<^verbatim>\<open>xs.filter(n => n.type === "FRAME")\<close>: the callback reads \<^verbatim>\<open>n.type\<close> of every
  element, so a \<^verbatim>\<open>null\<close> element throws.
\<close>

definition isFrame :: "json \<Rightarrow> thrown + bool" where
  "isFrame n = (case getProp n ''type'' of Inl e \<Rightarrow> Inl e | Inr t \<Rightarrow> Inr (t = JStr ''FRAME''))"

fun filterFrames :: "json list \<Rightarrow> thrown + json list" where
  "filterFrames [] = Inr []"
| "filterFrames (n # ns) =
     (case isFrame n of
        Inl e \<Rightarrow> Inl e
      | Inr keep \<Rightarrow>
          (case filterFrames ns of
             Inl e \<Rightarrow> Inl e
           | Inr rest \<Rightarrow> Inr (if keep then n # rest else rest)))"

text \<open>\<^verbatim>\<open>xs.map(n => n.name)\<close>\<close>

fun mapNames :: "json list \<Rightarrow> thrown + json list" where
  "mapNames [] = Inr []"
| "mapNames (n # ns) =
     (case getProp n ''name'' of
        Inl e \<Rightarrow> Inl e
      | Inr v \<Rightarrow> (case mapNames ns of Inl e \<Rightarrow> Inl e | Inr rest \<Rightarrow> Inr (v # rest)))"

text \<open>
  \<^verbatim>\<open>(figmaJson.document?.children?.[0]?.children || []).filter(...).map(...)\<close>.
  The first access is not optional: it throws on \<^verbatim>\<open>null\<close>. \<open>pageChildren\<close> is the
  receiver of \<^verbatim>\<open>filter\<close>, read from the value of \<^verbatim>\<open>figmaJson.document\<close>; a truthy
  value that is not an array has no callable \<^verbatim>\<open>filter\<close>, which is a TypeError.
\<close>

definition pageChildren :: "json \<Rightarrow> json" where
  "pageChildren doc = js_or (optProp (optIndex0 (optProp doc ''children'')) ''children'') (JArr [])"

definition topFrames :: "json \<Rightarrow> thrown + json list" where
  "topFrames figmaJson =
     (case getProp figmaJson ''document'' of
        Inl e \<Rightarrow> Inl e
      | Inr doc \<Rightarrow>
          (case pageChildren doc of
             JArr ns \<Rightarrow>
               (case filterFrames ns of Inl e \<Rightarrow> Inl e | Inr fs \<Rightarrow> mapNames fs)
           | _ \<Rightarrow> Inl TypeError))"

text \<open>
  \<^verbatim>\<open>files[k] = v\<close> on an object whose keys are not array indices: a new key is
  appended, an existing key keeps its place. \<^verbatim>\<open>Object.entries\<close> reads the list in order.
\<close>

fun assign :: "(string \<times> string) list \<Rightarrow> string \<Rightarrow> string \<Rightarrow> (string \<times> string) list" where
  "assign [] k v = [(k, v)]"
| "assign ((k', v') # kvs) k v = (if k' = k then (k, v) # kvs else (k', v') # assign kvs k v)"

definition tokens_json :: string where
  "tokens_json =
     (case stringify2
             (JObj [(''color'', JObj [(''primary'', JStr ''#0EA5E9'')]),
                    (''spacing'', JObj [(''m'', JNum ''16'')])]) of
        None \<Rightarrow> ''undefined'' | Some t \<Rightarrow> t)"

definition screens_map_ts :: "json list \<Rightarrow> string" where
  "screens_map_ts frames =
     ''export const screens = ''
       @ (case stringify2 (JArr frames) of None \<Rightarrow> ''undefined'' | Some t \<Rightarrow> t)
       @ '' as const;''"

definition Home_tsx :: string where
  "Home_tsx = ''export default function Home(){\<newline>  return (\<newline>    <div style={{ padding: 16 }}>\<newline>      <h1>GRITHER</h1>\<newline>      <p>'' @ [CHR 0xD0, CHR 0xAD, CHR 0xD1, CHR 0x82, CHR 0xD0, CHR 0xBE, CHR 0xD1, CHR 0x82] @ '' '' @ [CHR 0xD1, CHR 0x8D, CHR 0xD0, CHR 0xBA, CHR 0xD1, CHR 0x80, CHR 0xD0, CHR 0xB0, CHR 0xD0, CHR 0xBD] @ '' '' @ [CHR 0xD1, CHR 0x81, CHR 0xD0, CHR 0xB3, CHR 0xD0, CHR 0xB5, CHR 0xD0, CHR 0xBD, CHR 0xD0, CHR 0xB5, CHR 0xD1, CHR 0x80, CHR 0xD0, CHR 0xB8, CHR 0xD1, CHR 0x80, CHR 0xD0, CHR 0xBE, CHR 0xD0, CHR 0xB2, CHR 0xD0, CHR 0xB0, CHR 0xD0, CHR 0xBD] @ '' '' @ [CHR 0xD0, CHR 0xB8, CHR 0xD0, CHR 0xB7] @ '' Figma build.</p>\<newline>    </div>\<newline>  );\<newline>}''"

definition tools_Home_tsx :: string where
  "tools_Home_tsx = ''export default function Home(){\<newline>  return (<div style={{padding:16}}>\<newline>    <h1>GRITHER</h1>\<newline>    <p>'' @ [CHR 0xD0, CHR 0xAD, CHR 0xD1, CHR 0x82, CHR 0xD0, CHR 0xBE, CHR 0xD1, CHR 0x82] @ '' '' @ [CHR 0xD1, CHR 0x8D, CHR 0xD0, CHR 0xBA, CHR 0xD1, CHR 0x80, CHR 0xD0, CHR 0xB0, CHR 0xD0, CHR 0xBD] @ '' '' @ [CHR 0xD1, CHR 0x81, CHR 0xD0, CHR 0xB3, CHR 0xD0, CHR 0xB5, CHR 0xD0, CHR 0xBD, CHR 0xD0, CHR 0xB5, CHR 0xD1, CHR 0x80, CHR 0xD0, CHR 0xB8, CHR 0xD1, CHR 0x80, CHR 0xD0, CHR 0xBE, CHR 0xD0, CHR 0xB2, CHR 0xD0, CHR 0xB0, CHR 0xD0, CHR 0xBD] @ '' '' @ [CHR 0xD0, CHR 0xB8, CHR 0xD0, CHR 0xB7] @ '' Figma build.</p>\<newline>  </div>);\<newline>}''"

definition index_ts :: string where
  "index_ts = ''export { default as Home } from '' @ [CHR 0x22] @ ''./Home'' @ [CHR 0x22] @ '';\<newline>export { screens } from '' @ [CHR 0x22] @ ''./screens.map'' @ [CHR 0x22] @ '';''"

text \<open>
  \<^verbatim>\<open>generateCode\<close> of the root server. The two servers differ in the text of
  \<^verbatim>\<open>Home.tsx\<close> only; \<open>generateFiles\<close> is their common body.
\<close>

definition generateFiles :: "string \<Rightarrow> string \<Rightarrow> json \<Rightarrow> thrown + (string \<times> string) list" where
  "generateFiles home target figmaJson =
     (case topFrames figmaJson of
        Inl e \<Rightarrow> Inl e
      | Inr frames \<Rightarrow>
          Inr (assign
                (assign
                  (assign
                    (assign [] (target @ ''/src/tokens.json'') tokens_json)
                    (target @ ''/src/generated/screens.map.ts'') (screens_map_ts frames))
                  (target @ ''/src/generated/Home.tsx'') home)
                (target @ ''/src/generated/index.ts'') index_ts))"

definition generateCode :: "config \<Rightarrow> json \<Rightarrow> thrown + (string \<times> string) list" where
  "generateCode cfg figmaJson = generateFiles Home_tsx (CODEGEN_TARGET cfg) figmaJson"

text \<open>\<^verbatim>\<open>generateCode\<close> of \<^verbatim>\<open>tools/figma-sync/server.js\<close>.\<close>

definition tools_generateCode :: "config \<Rightarrow> json \<Rightarrow> thrown + (string \<times> string) list" where
  "tools_generateCode cfg figmaJson = generateFiles tools_Home_tsx (CODEGEN_TARGET cfg) figmaJson"

section \<open>The outside world\<close>

subsection \<open>The Figma service\<close>

text \<open>
  What \<^verbatim>\<open>fetch\<close> resolves to: the status, and what reading the body as text and as JSON
  gives (either read may reject). \<^verbatim>\<open>res.ok\<close> is node-fetch's getter.
\<close>

record http_response =
  status :: nat
  text_body :: "thrown + string"
  json_body :: "thrown + json"

definition ok :: "http_response \<Rightarrow> bool" where
  "ok res = (200 \<le> status res \<and> status res < 300)"

subsection \<open>The version-control host\<close>

record tree_item =
  path :: string
  mode :: string
  type :: string
  sha :: string

text \<open>The Octokit requests the program sends; owner and repository come first.\<close>

datatype gh_call =
    ReposGet string string
  | GitGetRef string string string
  | GitCreateBlob string string string string
  | GitCreateTree string string string "tree_item list"
  | GitCreateCommit string string string string "string list"
  | GitCreateRef string string string string
  | PullsCreate string string string string string string

text \<open>
  The part of a reply the program reads: \<^verbatim>\<open>data.default_branch\<close>, \<^verbatim>\<open>data.object.sha\<close> or
  \<^verbatim>\<open>data.sha\<close>, nothing, \<^verbatim>\<open>data.html_url\<close>.
\<close>

datatype gh_data =
    DefaultBranch "string option"
  | Sha string
  | Created
  | HtmlUrl string

text \<open>
  The host is any state machine over a state \<open>'h\<close>: each request returns a reply or
  rejects, and a new host state. Nothing is assumed of it, so a request may fail at any
  point of a run. The record stands for the client \<^verbatim>\<open>new Octokit({ auth: GH_TOKEN })\<close>.
\<close>

record 'h octokit =
  repos_get :: "string \<Rightarrow> string \<Rightarrow> 'h \<Rightarrow> (thrown + string option) \<times> 'h"
  git_getRef :: "string \<Rightarrow> string \<Rightarrow> string \<Rightarrow> 'h \<Rightarrow> (thrown + string) \<times> 'h"
  git_createBlob :: "string \<Rightarrow> string \<Rightarrow> string \<Rightarrow> string \<Rightarrow> 'h \<Rightarrow> (thrown + string) \<times> 'h"
  git_createTree :: "string \<Rightarrow> string \<Rightarrow> string \<Rightarrow> tree_item list \<Rightarrow> 'h \<Rightarrow> (thrown + string) \<times> 'h"
  git_createCommit ::
    "string \<Rightarrow> string \<Rightarrow> string \<Rightarrow> string \<Rightarrow> string list \<Rightarrow> 'h \<Rightarrow> (thrown + string) \<times> 'h"
  git_createRef :: "string \<Rightarrow> string \<Rightarrow> string \<Rightarrow> string \<Rightarrow> 'h \<Rightarrow> (thrown + unit) \<times> 'h"
  pulls_create ::
    "string \<Rightarrow> string \<Rightarrow> string \<Rightarrow> string \<Rightarrow> string \<Rightarrow> string \<Rightarrow> 'h \<Rightarrow> (thrown + string) \<times> 'h"

text \<open>
  The services of one run: what the Figma endpoint answers to a URL and a token, and the
  Octokit client.
\<close>

record 'h services =
  figma :: "string \<Rightarrow> string \<Rightarrow> thrown + http_response"
  octo :: "'h octokit"

subsection \<open>Runs\<close>

text \<open>
  A run threads the host state and the record of the network requests it has sent, each
  GitHub request with its reply. Console output is not recorded.
\<close>

datatype event =
    FigmaGet string string
  | GitHub gh_call "thrown + gh_data"

record 'h run_state =
  host :: 'h
  calls :: "event list"

type_synonym ('a, 'h) io = "'h run_state \<Rightarrow> (thrown + 'a) \<times> 'h run_state"

text \<open>\<^verbatim>\<open>const x = await m; ...\<close>: a rejection ends the rest of the function.\<close>

definition await :: "('a, 'h) io \<Rightarrow> ('a \<Rightarrow> ('b, 'h) io) \<Rightarrow> ('b, 'h) io" where
  "await m f s = (case m s of (Inl e, s') \<Rightarrow> (Inl e, s') | (Inr a, s') \<Rightarrow> f a s')"

definition return :: "'a \<Rightarrow> ('a, 'h) io" where
  "return a s = (Inr a, s)"

text \<open>A computation without effects: its value, or its throw.\<close>

definition pure :: "thrown + 'a \<Rightarrow> ('a, 'h) io" where
  "pure r s = (r, s)"

definition github :: "gh_call \<Rightarrow> ('a \<Rightarrow> gh_data) \<Rightarrow> ('h \<Rightarrow> (thrown + 'a) \<times> 'h) \<Rightarrow> ('a, 'h) io" where
  "github c view f s =
     (case f (host s) of
        (r, h') \<Rightarrow> (r, \<lparr>host = h', calls = calls s @ [GitHub c (map_sum (\<lambda>e. e) view r)]\<rparr>))"

section \<open>Fetching the design document\<close>

text \<open>
  \<^verbatim>\<open>fetchFigmaDoc\<close> of the root server. A rejected \<^verbatim>\<open>fetch\<close> propagates; for a response
  that is not OK the text of the body is read, \<^verbatim>\<open>""\<close> if that read rejects, and an Error
  is thrown; otherwise the body is parsed.
\<close>

definition fetchFigmaDoc :: "config \<Rightarrow> 'h services \<Rightarrow> (json, 'h) io" where
  "fetchFigmaDoc cfg srv s =
     (let url = ''https://api.figma.com/v1/files/'' @ FIGMA_FILE_ID cfg;
          s' = s\<lparr>calls := calls s @ [FigmaGet url (FIGMA_TOKEN cfg)]\<rparr>
      in case figma srv url (FIGMA_TOKEN cfg) of
           Inl e \<Rightarrow> (Inl e, s')
         | Inr res \<Rightarrow>
             if \<not> ok res then
               (let text = (case text_body res of Inl _ \<Rightarrow> [] | Inr t \<Rightarrow> t)
                in (Inl (Error (''Figma API error: '' @ show_nat (status res) @ '' '' @ text)), s'))
             else (json_body res, s'))"

text \<open>\<^verbatim>\<open>fetchFigmaDoc\<close> of \<^verbatim>\<open>tools/figma-sync/server.js\<close>: the message has the status only.\<close>

definition tools_fetchFigmaDoc :: "config \<Rightarrow> 'h services \<Rightarrow> (json, 'h) io" where
  "tools_fetchFigmaDoc cfg srv s =
     (let url = ''https://api.figma.com/v1/files/'' @ FIGMA_FILE_ID cfg;
          s' = s\<lparr>calls := calls s @ [FigmaGet url (FIGMA_TOKEN cfg)]\<rparr>
      in case figma srv url (FIGMA_TOKEN cfg) of
           Inl e \<Rightarrow> (Inl e, s')
         | Inr res \<Rightarrow>
             if \<not> ok res then (Inl (Error (''Figma API error: '' @ show_nat (status res))), s')
             else (json_body res, s'))"

section \<open>Publishing\<close>

definition commit_message :: string where
  "commit_message = ''chore(figma): auto-sync''"

definition pr_title :: string where
  "pr_title = ''Figma '' @ [CHR 0xE2, CHR 0x86, CHR 0x92] @ '' GitHub auto-sync''"

definition pr_body :: string where
  "pr_body = [CHR 0xD0, CHR 0xAD, CHR 0xD1, CHR 0x82, CHR 0xD0, CHR 0xBE, CHR 0xD1, CHR 0x82] @ '' PR '' @ [CHR 0xD0, CHR 0xB0, CHR 0xD0, CHR 0xB2, CHR 0xD1, CHR 0x82, CHR 0xD0, CHR 0xBE, CHR 0xD0, CHR 0xBC, CHR 0xD0, CHR 0xB0, CHR 0xD1, CHR 0x82, CHR 0xD0, CHR 0xB8, CHR 0xD1, CHR 0x87, CHR 0xD0, CHR 0xB5, CHR 0xD1, CHR 0x81, CHR 0xD0, CHR 0xBA, CHR 0xD0, CHR 0xB8] @ '' '' @ [CHR 0xD1, CHR 0x81, CHR 0xD0, CHR 0xBE, CHR 0xD0, CHR 0xB7, CHR 0xD0, CHR 0xB4, CHR 0xD0, CHR 0xB0, CHR 0xD0, CHR 0xBD] @ '' '' @ [CHR 0xD0, CHR 0xB8, CHR 0xD0, CHR 0xB7] @ '' '' @ [CHR 0xD0, CHR 0xB8, CHR 0xD0, CHR 0xB7, CHR 0xD0, CHR 0xBC, CHR 0xD0, CHR 0xB5, CHR 0xD0, CHR 0xBD, CHR 0xD0, CHR 0xB5, CHR 0xD0, CHR 0xBD, CHR 0xD0, CHR 0xB8, CHR 0xD0, CHR 0xB9] @ '' '' @ [CHR 0xD0, CHR 0xB2] @ '' Figma.''"

text \<open>
  The loop \<^verbatim>\<open>for (const [path, content] of Object.entries(files))\<close>: one blob per file,
  in order; the first rejection ends the loop.
\<close>

fun createBlobs ::
  "config \<Rightarrow> 'h octokit \<Rightarrow> (string \<times> string) list \<Rightarrow> tree_item list \<Rightarrow> (tree_item list, 'h) io" where
  "createBlobs cfg oc [] treeItems = return treeItems"
| "createBlobs cfg oc ((p, content) # rest) treeItems =
     await (github (GitCreateBlob (GH_OWNER cfg) (GH_REPO cfg) content ''utf-8'') Sha
              (git_createBlob oc (GH_OWNER cfg) (GH_REPO cfg) content ''utf-8''))
       (\<lambda>blob. createBlobs cfg oc rest
          (treeItems @ [\<lparr>path = p, mode = ''100644'', type = ''blob'', sha = blob\<rparr>]))"

text \<open>
  The steps of \<^verbatim>\<open>openPR\<close> after the base branch and its head are known; \<open>now\<close> is
  \<^verbatim>\<open>Date.now()\<close>. Both servers run them.
\<close>

definition publish ::
  "config \<Rightarrow> 'h octokit \<Rightarrow> nat \<Rightarrow> string \<Rightarrow> string \<Rightarrow> (string \<times> string) list \<Rightarrow> (string, 'h) io" where
  "publish cfg oc now baseBranch baseSha files =
     (let branch = ''figma-sync/'' @ show_nat now in
      await (createBlobs cfg oc files [])
        (\<lambda>treeItems.
      await (github (GitCreateTree (GH_OWNER cfg) (GH_REPO cfg) baseSha treeItems) Sha
               (git_createTree oc (GH_OWNER cfg) (GH_REPO cfg) baseSha treeItems))
        (\<lambda>tree.
      await (github (GitCreateCommit (GH_OWNER cfg) (GH_REPO cfg) commit_message tree [baseSha]) Sha
               (git_createCommit oc (GH_OWNER cfg) (GH_REPO cfg) commit_message tree [baseSha]))
        (\<lambda>commit.
      await (github (GitCreateRef (GH_OWNER cfg) (GH_REPO cfg) (''refs/heads/'' @ branch) commit)
               (\<lambda>_. Created)
               (git_createRef oc (GH_OWNER cfg) (GH_REPO cfg) (''refs/heads/'' @ branch) commit))
        (\<lambda>_.
      github (PullsCreate (GH_OWNER cfg) (GH_REPO cfg) branch baseBranch pr_title pr_body) HtmlUrl
        (pulls_create oc (GH_OWNER cfg) (GH_REPO cfg) branch baseBranch pr_title pr_body))))))"

text \<open>\<^verbatim>\<open>repoInfo.data.default_branch || "main"\<close>\<close>

definition default_or_main :: "string option \<Rightarrow> string" where
  "default_or_main default_branch =
     (case default_branch of None \<Rightarrow> ''main'' | Some b \<Rightarrow> if b = [] then ''main'' else b)"

text \<open>
  \<^verbatim>\<open>openPR\<close> of the root server: the base branch is the repository's default branch
  (\<^verbatim>\<open>"main"\<close> when that is missing or empty), its head is read, then the steps above; the
  result is the URL of the pull request.
\<close>

definition openPR :: "config \<Rightarrow> 'h octokit \<Rightarrow> nat \<Rightarrow> (string \<times> string) list \<Rightarrow> (string, 'h) io" where
  "openPR cfg oc now files =
     await (github (ReposGet (GH_OWNER cfg) (GH_REPO cfg)) DefaultBranch
              (repos_get oc (GH_OWNER cfg) (GH_REPO cfg)))
       (\<lambda>default_branch.
     let baseBranch = default_or_main default_branch in
     await (github (GitGetRef (GH_OWNER cfg) (GH_REPO cfg) (''heads/'' @ baseBranch)) Sha
              (git_getRef oc (GH_OWNER cfg) (GH_REPO cfg) (''heads/'' @ baseBranch)))
       (\<lambda>baseSha. publish cfg oc now baseBranch baseSha files))"

text \<open>
  \<^verbatim>\<open>openPR\<close> of \<^verbatim>\<open>tools/figma-sync/server.js\<close>: the base branch is \<^verbatim>\<open>"main"\<close>, and
  nothing is returned.
\<close>

definition tools_openPR :: "config \<Rightarrow> 'h octokit \<Rightarrow> nat \<Rightarrow> (string \<times> string) list \<Rightarrow> (unit, 'h) io" where
  "tools_openPR cfg oc now files =
     await (github (GitGetRef (GH_OWNER cfg) (GH_REPO cfg) ''heads/main'') Sha
              (git_getRef oc (GH_OWNER cfg) (GH_REPO cfg) ''heads/main''))
       (\<lambda>baseSha.
     await (publish cfg oc now ''main'' baseSha files) (\<lambda>_. return ()))"

section \<open>The webhook\<close>

text \<open>
  ToString, as a template literal applies it. An array joins its elements with commas,
  \<^verbatim>\<open>null\<close> and \<^verbatim>\<open>undefined\<close> as the empty string. An object without an own
  \<^verbatim>\<open>toString\<close> property prints through \<^verbatim>\<open>Object.prototype.toString\<close>; an own
  \<^verbatim>\<open>toString\<close> property of a parsed payload is never callable, and the inherited
  \<^verbatim>\<open>valueOf\<close> returns the object itself, so the conversion throws a TypeError.
\<close>

fun sequence :: "(thrown + 'a) list \<Rightarrow> thrown + 'a list" where
  "sequence [] = Inr []"
| "sequence (Inl e # rs) = Inl e"
| "sequence (Inr a # rs) = (case sequence rs of Inl e \<Rightarrow> Inl e | Inr as \<Rightarrow> Inr (a # as))"

fun toStr :: "json \<Rightarrow> thrown + string" where
  "toStr JUndefined = Inr ''undefined''"
| "toStr JNull = Inr ''null''"
| "toStr (JBool b) = Inr (if b then ''true'' else ''false'')"
| "toStr (JNum s) = Inr s"
| "toStr (JStr s) = Inr s"
| "toStr (JArr xs) =
     (case sequence (map (\<lambda>x. if x = JNull \<or> x = JUndefined then Inr [] else toStr x) xs) of
        Inl e \<Rightarrow> Inl e
      | Inr parts \<Rightarrow> Inr (join '','' parts))"
| "toStr (JObj kvs) =
     (case map_of kvs ''toString'' of
        None \<Rightarrow> Inr ''[object Object]''
      | Some _ \<Rightarrow> Inl TypeError)"

text \<open>
  \<^verbatim>\<open>console.log\<close> of a template literal: the line is built (which may throw) and
  printed; the printed line is not kept.
\<close>

definition console_log :: "thrown + string \<Rightarrow> (unit, 'h) io" where
  "console_log line s = (case line of Inl e \<Rightarrow> (Inl e, s) | Inr _ \<Rightarrow> (Inr (), s))"

text \<open>\<^verbatim>\<open>`[webhook] type=${eventType} file=${fileId}`\<close>\<close>

definition received_line :: "json \<Rightarrow> json \<Rightarrow> thrown + string" where
  "received_line eventType fileId =
     (case toStr eventType of
        Inl e \<Rightarrow> Inl e
      | Inr t \<Rightarrow>
          (case toStr fileId of
             Inl e \<Rightarrow> Inl e
           | Inr f \<Rightarrow> Inr (''[webhook] type='' @ t @ '' file='' @ f)))"

text \<open>\<^verbatim>\<open>`[webhook] skip: different file (${fileId})`\<close>\<close>

definition skip_line :: "json \<Rightarrow> thrown + string" where
  "skip_line fileId =
     (case toStr fileId of
        Inl e \<Rightarrow> Inl e
      | Inr f \<Rightarrow> Inr (''[webhook] skip: different file ('' @ f @ '')''))"

text \<open>
  The request as the handler reads it: the parsed body and the
  \<^verbatim>\<open>x-figma-event-type\<close> header.
\<close>

record request =
  body :: json
  x_figma_event_type :: "string option"

text \<open>The response: \<open>StringOf e\<close> is the text \<^verbatim>\<open>String(e)\<close> of a caught value.\<close>

datatype payload = Text string | StringOf thrown

record response =
  code :: nat
  sent :: payload

text \<open>
  \<^verbatim>\<open>req.body?.event_type || req.headers["x-figma-event-type"] || "unknown"\<close> and
  \<^verbatim>\<open>req.body?.file_key || req.body?.file_id\<close>
\<close>

definition eventType_of :: "request \<Rightarrow> json" where
  "eventType_of req =
     js_or (js_or (optProp (body req) ''event_type'')
                  (case x_figma_event_type req of None \<Rightarrow> JUndefined | Some h \<Rightarrow> JStr h))
           (JStr ''unknown'')"

definition fileId_of :: "request \<Rightarrow> json" where
  "fileId_of req = js_or (optProp (body req) ''file_key'') (optProp (body req) ''file_id'')"

text \<open>The \<^verbatim>\<open>try\<close> block of the root server's handler.\<close>

definition webhook_try ::
  "config \<Rightarrow> 'h services \<Rightarrow> nat \<Rightarrow> request \<Rightarrow> (response, 'h) io" where
  "webhook_try cfg srv now req =
     (let eventType = eventType_of req;
          fileId = fileId_of req
      in
      await (console_log (received_line eventType fileId))
        (\<lambda>_.
      if truthy fileId \<and> fileId \<noteq> JStr (FIGMA_FILE_ID cfg) then
        await (console_log (skip_line fileId))
          (\<lambda>_. return \<lparr>code = 200, sent = Text ''OK''\<rparr>)
      else
        await (fetchFigmaDoc cfg srv)
          (\<lambda>figmaJson.
        await (pure (generateCode cfg figmaJson))
          (\<lambda>files.
        await (openPR cfg (octo srv) now files)
          (\<lambda>prUrl.
        await (console_log (Inr (''[webhook] PR created: '' @ prUrl)))
          (\<lambda>_. return \<lparr>code = 200, sent = Text ''OK''\<rparr>))))))"

text \<open>
  \<^verbatim>\<open>app.post("/figma-webhook", ...)\<close> of the root server: whatever the block throws is
  caught and answered with status 500.
\<close>

definition webhook ::
  "config \<Rightarrow> 'h services \<Rightarrow> nat \<Rightarrow> request \<Rightarrow> 'h run_state \<Rightarrow> response \<times> 'h run_state" where
  "webhook cfg srv now req s =
     (case webhook_try cfg srv now req s of
        (Inl e, s') \<Rightarrow> (\<lparr>code = 500, sent = StringOf e\<rparr>, s')
      | (Inr res, s') \<Rightarrow> (res, s'))"

text \<open>
  The handler of \<^verbatim>\<open>tools/figma-sync/server.js\<close>: every request fetches, generates and
  publishes.
\<close>

definition tools_webhook ::
  "config \<Rightarrow> 'h services \<Rightarrow> nat \<Rightarrow> request \<Rightarrow> 'h run_state \<Rightarrow> response \<times> 'h run_state" where
  "tools_webhook cfg srv now req s =
     (case await (tools_fetchFigmaDoc cfg srv)
             (\<lambda>figmaJson.
           await (pure (tools_generateCode cfg figmaJson))
             (\<lambda>files.
           await (tools_openPR cfg (octo srv) now files)
             (\<lambda>_. return \<lparr>code = 200, sent = Text ''OK''\<rparr>))) s of
        (Inl e, s') \<Rightarrow> (\<lparr>code = 500, sent = StringOf e\<rparr>, s')
      | (Inr res, s') \<Rightarrow> (res, s'))"

section \<open>An in-memory host\<close>

text \<open>
  A small host to run the pipeline on: it numbers the objects it stores, keeps the
  references and the pull requests, and rejects a reference that is missing or already
  there.
\<close>

record mem_host =
  stored :: nat
  refs :: "(string \<times> string) list"
  pulls :: "(string \<times> string \<times> string \<times> string) list"

definition mem_store :: "mem_host \<Rightarrow> (thrown + string) \<times> mem_host" where
  "mem_store h = (Inr (''object-'' @ show_nat (stored h)), h\<lparr>stored := Suc (stored h)\<rparr>)"

definition mem_octokit :: "mem_host octokit" where
  "mem_octokit =
     \<lparr>repos_get = (\<lambda>owner repo h. (Inr (Some ''main''), h)),
      git_getRef = (\<lambda>owner repo ref h.
         (case map_of (refs h) (''refs/'' @ ref) of
            None \<Rightarrow> (Inl (Rejection ''Not Found''), h)
          | Some commit \<Rightarrow> (Inr commit, h))),
      git_createBlob = (\<lambda>owner repo content encoding h. mem_store h),
      git_createTree = (\<lambda>owner repo base_tree items h. mem_store h),
      git_createCommit = (\<lambda>owner repo message tree parents h. mem_store h),
      git_createRef = (\<lambda>owner repo ref commit h.
         (case map_of (refs h) ref of
            None \<Rightarrow> (Inr (), h\<lparr>refs := refs h @ [(ref, commit)]\<rparr>)
          | Some _ \<Rightarrow> (Inl (Rejection ''Reference already exists''), h))),
      pulls_create = (\<lambda>owner repo head base title descr h.
         (Inr (''https://github.com/'' @ owner @ ''/'' @ repo @ ''/pull/''
                 @ show_nat (Suc (length (pulls h)))),
          h\<lparr>pulls := pulls h @ [(head, base, title, descr)]\<rparr>))\<rparr>"

definition mem_start :: "mem_host run_state" where
  "mem_start = \<lparr>host = \<lparr>stored = 0, refs = [(''refs/heads/main'', ''base-0'')], pulls = []\<rparr>, calls = []\<rparr>"

text \<open>A Figma endpoint that answers every request with status \<open>st\<close> and the document \<open>doc\<close>.\<close>

definition figma_serving :: "nat \<Rightarrow> json \<Rightarrow> string \<Rightarrow> string \<Rightarrow> thrown + http_response" where
  "figma_serving st doc url token = Inr \<lparr>status = st, text_body = Inr [], json_body = Inr doc\<rparr>"

definition mem_services :: "nat \<Rightarrow> json \<Rightarrow> mem_host services" where
  "mem_services st doc = \<lparr>figma = figma_serving st doc, octo = mem_octokit\<rparr>"

text \<open>Sample inputs.\<close>

definition sample_config :: config where
  "sample_config =
     \<lparr>FIGMA_TOKEN = ''figd'', FIGMA_FILE_ID = ''FILE1'', GH_TOKEN = ''ghp'',
      GH_OWNER = ''acme'', GH_REPO = ''app'', CODEGEN_TARGET = ''.''\<rparr>"

definition frame :: "string \<Rightarrow> json list \<Rightarrow> json" where
  "frame n cs = JObj [(''type'', JStr ''FRAME''), (''name'', JStr n), (''children'', JArr cs)]"

definition document_of :: "json list \<Rightarrow> json" where
  "document_of cs =
     JObj [(''document'',
            JObj [(''type'', JStr ''DOCUMENT''),
                  (''children'', JArr [JObj [(''type'', JStr ''CANVAS''), (''children'', JArr cs)]])])]"

definition sample_document :: json where
  "sample_document = document_of [frame ''Home'' [], frame ''Settings'' []]"

definition sample_request :: request where
  "sample_request =
     \<lparr>body = JObj [(''event_type'', JStr ''FILE_UPDATE''), (''file_key'', JStr ''FILE1'')],
      x_figma_event_type = None\<rparr>"

text \<open>
  Requests for another file: a plain one, one whose event type is an object with an own
  \<^verbatim>\<open>toString\<close> property, and one whose file key is the empty string.
\<close>

definition foreign_request :: request where
  "foreign_request =
     \<lparr>body = JObj [(''event_type'', JStr ''FILE_UPDATE''), (''file_key'', JStr ''OTHER'')],
      x_figma_event_type = None\<rparr>"

definition unprintable_request :: request where
  "unprintable_request =
     \<lparr>body = JObj [(''event_type'', JObj [(''toString'', JNum ''1'')]), (''file_key'', JStr ''OTHER'')],
      x_figma_event_type = None\<rparr>"

definition empty_id_request :: request where
  "empty_id_request =
     \<lparr>body = JObj [(''event_type'', JStr ''FILE_UPDATE''), (''file_key'', JStr [])],
      x_figma_event_type = None\<rparr>"

text \<open>Two runs in succession on one unchanged document, a minute apart.\<close>

definition first_run :: "response \<times> mem_host run_state" where
  "first_run =
     webhook sample_config (mem_services 200 sample_document) 1730000000000 sample_request mem_start"

definition second_run :: "response \<times> mem_host run_state" where
  "second_run =
     webhook sample_config (mem_services 200 sample_document) 1730000060000 sample_request
       (snd first_run)"

definition tools_first_run :: "response \<times> mem_host run_state" where
  "tools_first_run =
     tools_webhook sample_config (mem_services 200 sample_document) 1730000000000 sample_request
       mem_start"

definition tools_second_run :: "response \<times> mem_host run_state" where
  "tools_second_run =
     tools_webhook sample_config (mem_services 200 sample_document) 1730000060000 sample_request
       (snd tools_first_run)"

definition sample_files :: "(string \<times> string) list" where
  "sample_files = [(''src/a.ts'', ''export const a = 1;''), (''src/b.ts'', ''export const b = 2;'')]"


text \<open>A frame inside a top-level frame, and a frame inside a top-level group.\<close>

definition nested_document :: json where
  "nested_document =
     document_of
       [frame ''Home'' [frame ''Deep'' []],
        JObj [(''type'', JStr ''GROUP''), (''name'', JStr ''Wrapper''),
              (''children'', JArr [frame ''Inner'' []])]]"

section \<open>Observations\<close>

text \<open>The requests a run has added to the record, from the state before and after it.\<close>

definition new_calls :: "'h run_state \<Rightarrow> 'h run_state \<Rightarrow> event list" where
  "new_calls s s' = drop (length (calls s)) (calls s')"

text \<open>The Figma requests among some events.\<close>

fun figma_gets :: "event list \<Rightarrow> (string \<times> string) list" where
  "figma_gets [] = []"
| "figma_gets (FigmaGet url token # es) = (url, token) # figma_gets es"
| "figma_gets (e # es) = figma_gets es"

text \<open>The GitHub requests among some events, whatever their outcome.\<close>

fun github_calls :: "event list \<Rightarrow> gh_call list" where
  "github_calls [] = []"
| "github_calls (GitHub c r # es) = c # github_calls es"
| "github_calls (e # es) = github_calls es"

text \<open>The requests that write to the host: blob, tree, commit, reference, pull request.\<close>

fun is_write :: "gh_call \<Rightarrow> bool" where
  "is_write (ReposGet owner repo) = False"
| "is_write (GitGetRef owner repo ref) = False"
| "is_write c = True"

definition host_writes :: "event list \<Rightarrow> gh_call list" where
  "host_writes es = filter is_write (github_calls es)"

text \<open>The heads that \<^verbatim>\<open>git.getRef\<close> answered with, as \<open>(ref, sha)\<close>.\<close>

fun resolved_heads :: "event list \<Rightarrow> (string \<times> string) list" where
  "resolved_heads [] = []"
| "resolved_heads (GitHub (GitGetRef owner repo ref) (Inr (Sha b)) # es) = (ref, b) # resolved_heads es"
| "resolved_heads (e # es) = resolved_heads es"

text \<open>The parent lists of the commits requested.\<close>

fun commit_parents :: "event list \<Rightarrow> string list list" where
  "commit_parents [] = []"
| "commit_parents (GitHub (GitCreateCommit owner repo message tree parents) r # es) =
     parents # commit_parents es"
| "commit_parents (e # es) = commit_parents es"

text \<open>The references created, and the pull requests opened as \<open>(head, base, title, body)\<close>.\<close>

fun branches_created :: "event list \<Rightarrow> string list" where
  "branches_created [] = []"
| "branches_created (GitHub (GitCreateRef owner repo ref commit) (Inr d) # es) =
     ref # branches_created es"
| "branches_created (e # es) = branches_created es"

fun pulls_opened :: "event list \<Rightarrow> (string \<times> string \<times> string \<times> string) list" where
  "pulls_opened [] = []"
| "pulls_opened (GitHub (PullsCreate owner repo head base title descr) (Inr d) # es) =
     (head, base, title, descr) # pulls_opened es"
| "pulls_opened (e # es) = pulls_opened es"

text \<open>
  The file set a run hands to the host: the contents of the blob requests, in order, and
  the paths of the items of each tree request.
\<close>

fun blob_contents :: "event list \<Rightarrow> string list" where
  "blob_contents [] = []"
| "blob_contents (GitHub (GitCreateBlob owner repo content encoding) r # es) =
     content # blob_contents es"
| "blob_contents (e # es) = blob_contents es"

fun tree_paths :: "event list \<Rightarrow> string list list" where
  "tree_paths [] = []"
| "tree_paths (GitHub (GitCreateTree owner repo base_tree items) r # es) =
     map path items # tree_paths es"
| "tree_paths (e # es) = tree_paths es"

text \<open>The events of the blob loop.\<close>

fun is_blob :: "event \<Rightarrow> bool" where
  "is_blob (GitHub (GitCreateBlob owner repo content encoding) r) = True"
| "is_blob e = False"

text \<open>The generated component modules of a file set: the paths that end in \<^verbatim>\<open>.tsx\<close>.\<close>

definition is_tsx :: "string \<Rightarrow> bool" where
  "is_tsx p = (take 4 (rev p) = ''xst.'')"

definition screen_modules :: "(string \<times> string) list \<Rightarrow> string list" where
  "screen_modules files = filter is_tsx (map fst files)"

section \<open>The generated file set\<close>

lemma assign_four:
  "assign (assign (assign (assign [] (t @ ''/src/tokens.json'') a)
      (t @ ''/src/generated/screens.map.ts'') b) (t @ ''/src/generated/Home.tsx'') c)
      (t @ ''/src/generated/index.ts'') d =
   [(t @ ''/src/tokens.json'', a), (t @ ''/src/generated/screens.map.ts'', b),
    (t @ ''/src/generated/Home.tsx'', c), (t @ ''/src/generated/index.ts'', d)]"
  by simp

lemma generateFiles_eq:
  "generateFiles home t D =
     (case topFrames D of
        Inl e \<Rightarrow> Inl e
      | Inr frames \<Rightarrow>
          Inr [(t @ ''/src/tokens.json'', tokens_json),
               (t @ ''/src/generated/screens.map.ts'', screens_map_ts frames),
               (t @ ''/src/generated/Home.tsx'', home),
               (t @ ''/src/generated/index.ts'', index_ts)])"
  unfolding generateFiles_def assign_four by simp


lemma screens_map_ts_Nil: "screens_map_ts [] = ''export const screens = [] as const;''"
  by (simp add: screens_map_ts_def stringify2_def)

lemma getProp_optProp: "c \<noteq> JNull \<Longrightarrow> c \<noteq> JUndefined \<Longrightarrow> getProp c k = Inr (optProp c k)"
  by (cases c) simp_all

lemma filterFrames_eq:
  "filterFrames cs =
     (if list_all (\<lambda>c. c \<noteq> JNull \<and> c \<noteq> JUndefined) cs
      then Inr (filter (\<lambda>c. optProp c ''type'' = JStr ''FRAME'') cs) else Inl TypeError)"
proof (induction cs)
  case Nil
  show ?case by simp
next
  case (Cons c cs)
  show ?case
  proof (cases "c = JNull \<or> c = JUndefined")
    case True
    then show ?thesis by (auto simp: isFrame_def)
  next
    case False
    then show ?thesis using Cons by (simp add: isFrame_def getProp_optProp)
  qed
qed

lemma mapNames_frames:
  "mapNames (filter (\<lambda>c. optProp c ''type'' = JStr ''FRAME'') cs) =
     Inr (map (\<lambda>c. optProp c ''name'') (filter (\<lambda>c. optProp c ''type'' = JStr ''FRAME'') cs))"
proof (induction cs)
  case Nil
  show ?case by simp
next
  case (Cons c cs)
  show ?case
  proof (cases "optProp c ''type'' = JStr ''FRAME''")
    case True
    then have "c \<noteq> JNull" "c \<noteq> JUndefined" by auto
    then show ?thesis using True Cons by (simp add: getProp_optProp)
  next
    case False
    then show ?thesis using Cons by simp
  qed
qed

lemma topFrames_eq:
  "topFrames D =
     (case getProp D ''document'' of
        Inl e \<Rightarrow> Inl e
      | Inr doc \<Rightarrow>
          (case pageChildren doc of
             JArr cs \<Rightarrow>
               if list_all (\<lambda>c. c \<noteq> JNull \<and> c \<noteq> JUndefined) cs
               then Inr (map (\<lambda>c. optProp c ''name'') (filter (\<lambda>c. optProp c ''type'' = JStr ''FRAME'') cs))
               else Inl TypeError
           | _ \<Rightarrow> Inl TypeError))"
  by (simp add: topFrames_def filterFrames_eq mapNames_frames split: sum.splits json.splits)

lemma topFrames_document_of:
  "list_all (\<lambda>c. c \<noteq> JNull \<and> c \<noteq> JUndefined) cs \<Longrightarrow>
   topFrames (document_of cs) =
     Inr (map (\<lambda>c. optProp c ''name'') (filter (\<lambda>c. optProp c ''type'' = JStr ''FRAME'') cs))"
  by (simp add: topFrames_eq document_of_def pageChildren_def js_or_def)


lemma topFrames_sample: "topFrames sample_document = Inr [JStr ''Home'', JStr ''Settings'']"
  by (simp add: sample_document_def topFrames_document_of frame_def)

text \<open>
  C2 (as amended). For every design document whose first page has no top-level frame, both
  generators return the tokens file, a manifest whose sequence is empty
  (\<^verbatim>\<open>export const screens = [] as const;\<close>), the index, and also the fixed sample
  screen module \<^verbatim>\<open>Home.tsx\<close>, which is written whatever the document holds.
\<close>

theorem C2_zero_screens:
  "topFrames D = Inr [] \<Longrightarrow>
   generateCode cfg D =
     Inr [(CODEGEN_TARGET cfg @ ''/src/tokens.json'', tokens_json),
          (CODEGEN_TARGET cfg @ ''/src/generated/screens.map.ts'',
           ''export const screens = [] as const;''),
          (CODEGEN_TARGET cfg @ ''/src/generated/Home.tsx'', Home_tsx),
          (CODEGEN_TARGET cfg @ ''/src/generated/index.ts'', index_ts)] \<and>
   tools_generateCode cfg D =
     Inr [(CODEGEN_TARGET cfg @ ''/src/tokens.json'', tokens_json),
          (CODEGEN_TARGET cfg @ ''/src/generated/screens.map.ts'',
           ''export const screens = [] as const;''),
          (CODEGEN_TARGET cfg @ ''/src/generated/Home.tsx'', tools_Home_tsx),
          (CODEGEN_TARGET cfg @ ''/src/generated/index.ts'', index_ts)]"
  by (simp add: generateCode_def tools_generateCode_def generateFiles_eq screens_map_ts_Nil)

theorem C2_zero_screens_witness:
  "topFrames (document_of []) = Inr [] \<and>
   generateCode sample_config (document_of []) =
     Inr [(''./src/tokens.json'', tokens_json),
          (''./src/generated/screens.map.ts'', ''export const screens = [] as const;''),
          (''./src/generated/Home.tsx'', Home_tsx),
          (''./src/generated/index.ts'', index_ts)]"
proof -
  have h: "topFrames (document_of []) = Inr []"
    by (simp add: topFrames_document_of)
  show ?thesis
    using h C2_zero_screens [OF h, of sample_config] by (simp add: sample_config_def)
qed

text \<open>
  The claim as stated fails on the document with an empty first page: the file set does
  hold a screen module.
\<close>

theorem C2_zero_screens_counterexample:
  "topFrames (document_of []) = Inr [] \<and>
   map_sum (\<lambda>e. e) screen_modules (generateCode sample_config (document_of []))
     = Inr [''./src/generated/Home.tsx''] \<and>
   map_sum (\<lambda>e. e) screen_modules (tools_generateCode sample_config (document_of []))
     = Inr [''./src/generated/Home.tsx'']"
  by (simp add: topFrames_document_of generateCode_def tools_generateCode_def generateFiles_eq
      screen_modules_def is_tsx_def sample_config_def)




text \<open>
  C7 (as amended). The normaliser reads the direct children of the first page only: when
  none of them is \<^verbatim>\<open>null\<close>, its result is the names of those whose type is
  \<^verbatim>\<open>FRAME\<close>, in order. A child of another type is dropped together with everything
  below it, and nothing below a frame is read either.
\<close>

theorem C7_top_level_only:
  "getProp D ''document'' = Inr doc \<Longrightarrow> pageChildren doc = JArr cs \<Longrightarrow>
   list_all (\<lambda>c. c \<noteq> JNull \<and> c \<noteq> JUndefined) cs \<Longrightarrow>
   topFrames D =
     Inr (map (\<lambda>c. optProp c ''name'') (filter (\<lambda>c. optProp c ''type'' = JStr ''FRAME'') cs))"
  by (simp add: topFrames_eq)

theorem C7_top_level_only_witness:
  "getProp nested_document ''document''
     = Inr (JObj [(''type'', JStr ''DOCUMENT''),
                  (''children'', JArr [JObj [(''type'', JStr ''CANVAS''),
                     (''children'', JArr
                        [frame ''Home'' [frame ''Deep'' []],
                         JObj [(''type'', JStr ''GROUP''), (''name'', JStr ''Wrapper''),
                               (''children'', JArr [frame ''Inner'' []])]])]])]) \<and>
   topFrames nested_document = Inr [JStr ''Home'']"
proof -
  let ?cs = "[frame ''Home'' [frame ''Deep'' []],
              JObj [(''type'', JStr ''GROUP''), (''name'', JStr ''Wrapper''),
                    (''children'', JArr [frame ''Inner'' []])]]"
  let ?doc = "JObj [(''type'', JStr ''DOCUMENT''),
                 (''children'', JArr [JObj [(''type'', JStr ''CANVAS''), (''children'', JArr ?cs)]])]"
  have h1: "getProp nested_document ''document'' = Inr ?doc"
    by (simp add: nested_document_def document_of_def)
  have h2: "pageChildren ?doc = JArr ?cs"
    by (simp add: pageChildren_def js_or_def)
  have h3: "list_all (\<lambda>c. c \<noteq> JNull \<and> c \<noteq> JUndefined) ?cs"
    by (simp add: frame_def)
  show ?thesis
    using h1 C7_top_level_only [OF h1 h2 h3] by (simp add: frame_def)
qed

text \<open>
  The claim as stated fails on a frame inside a top-level group: the frame is lost, and
  the file set is that of an empty page.
\<close>

theorem C7_nested_frame_counterexample:
  "topFrames (document_of [JObj [(''type'', JStr ''GROUP''), (''name'', JStr ''Wrapper''),
                                 (''children'', JArr [frame ''Inner'' []])]]) = Inr [] \<and>
   generateCode sample_config
       (document_of [JObj [(''type'', JStr ''GROUP''), (''name'', JStr ''Wrapper''),
                           (''children'', JArr [frame ''Inner'' []])]])
     = generateCode sample_config (document_of []) \<and>
   tools_generateCode sample_config
       (document_of [JObj [(''type'', JStr ''GROUP''), (''name'', JStr ''Wrapper''),
                           (''children'', JArr [frame ''Inner'' []])]])
     = tools_generateCode sample_config (document_of [])"
  by (simp add: topFrames_document_of generateCode_def tools_generateCode_def generateFiles_def)

text \<open>
  C9 (as amended). For every input that is neither \<^verbatim>\<open>null\<close> nor \<^verbatim>\<open>undefined\<close> and
  whose first page's children are missing, falsy, or an array without \<^verbatim>\<open>null\<close>
  elements, both generators return exactly the four paths \<^verbatim>\<open>src/tokens.json\<close>,
  \<^verbatim>\<open>src/generated/screens.map.ts\<close>, \<^verbatim>\<open>src/generated/Home.tsx\<close> and
  \<^verbatim>\<open>src/generated/index.ts\<close>, in this order, each under the target directory.
\<close>

theorem C9_four_paths:
  "getProp D ''document'' = Inr doc \<Longrightarrow> pageChildren doc = JArr cs \<Longrightarrow>
   list_all (\<lambda>c. c \<noteq> JNull \<and> c \<noteq> JUndefined) cs \<Longrightarrow>
   map_sum (\<lambda>e. e) (map fst) (generateCode cfg D)
     = Inr [CODEGEN_TARGET cfg @ ''/src/tokens.json'',
            CODEGEN_TARGET cfg @ ''/src/generated/screens.map.ts'',
            CODEGEN_TARGET cfg @ ''/src/generated/Home.tsx'',
            CODEGEN_TARGET cfg @ ''/src/generated/index.ts''] \<and>
   map_sum (\<lambda>e. e) (map fst) (tools_generateCode cfg D)
     = Inr [CODEGEN_TARGET cfg @ ''/src/tokens.json'',
            CODEGEN_TARGET cfg @ ''/src/generated/screens.map.ts'',
            CODEGEN_TARGET cfg @ ''/src/generated/Home.tsx'',
            CODEGEN_TARGET cfg @ ''/src/generated/index.ts'']"
  by (simp add: generateCode_def tools_generateCode_def generateFiles_eq topFrames_eq)

theorem C9_four_paths_witness:
  "getProp (JObj [(''document'', JObj [(''children'', JNull)])]) ''document''
     = Inr (JObj [(''children'', JNull)]) \<and>
   pageChildren (JObj [(''children'', JNull)]) = JArr [] \<and>
   map_sum (\<lambda>e. e) (map fst)
       (generateCode sample_config (JObj [(''document'', JObj [(''children'', JNull)])]))
     = Inr [''./src/tokens.json'', ''./src/generated/screens.map.ts'',
            ''./src/generated/Home.tsx'', ''./src/generated/index.ts'']"
proof -
  have h1: "getProp (JObj [(''document'', JObj [(''children'', JNull)])]) ''document''
      = Inr (JObj [(''children'', JNull)])"
    by simp
  have h2: "pageChildren (JObj [(''children'', JNull)]) = JArr []"
    by (simp add: pageChildren_def js_or_def)
  have h3: "list_all (\<lambda>c. c \<noteq> JNull \<and> c \<noteq> JUndefined) []"
    by simp
  show ?thesis
    using h1 h2 C9_four_paths [OF h1 h2 h3, of sample_config] by (simp add: sample_config_def)
qed

text \<open>
  The claim as stated fails on a page whose children hold \<^verbatim>\<open>null\<close>, and on the input
  \<^verbatim>\<open>null\<close>: the generator throws a TypeError.
\<close>

theorem C9_total_counterexample:
  "generateCode sample_config (document_of [JNull]) = Inl TypeError \<and>
   tools_generateCode sample_config (document_of [JNull]) = Inl TypeError \<and>
   generateCode sample_config JNull = Inl TypeError"
  by (simp add: generateCode_def tools_generateCode_def generateFiles_eq topFrames_eq
      document_of_def pageChildren_def js_or_def)

section \<open>The requests of a publish\<close>

lemma new_calls_append: "calls s' = calls s @ ev \<Longrightarrow> new_calls s s' = ev"
  by (simp add: new_calls_def)

lemma github_step:
  "github c view f s = (r, s') \<Longrightarrow>
   calls s' = calls s @ [GitHub c (map_sum (\<lambda>e. e) view r)] \<and> f (host s) = (r, host s')"
  by (auto simp: github_def split: prod.splits)

lemma createBlobs_calls:
  "createBlobs cfg oc files acc s = (r, s') \<Longrightarrow> \<exists>ev. calls s' = calls s @ ev \<and> list_all is_blob ev"
proof (induction files arbitrary: acc s)
  case Nil
  then show ?case by (simp add: return_def)
next
  case (Cons f files)
  obtain p content where f: "f = (p, content)" by (cases f)
  let ?c = "GitCreateBlob (GH_OWNER cfg) (GH_REPO cfg) content ''utf-8''"
  obtain r1 s1 where g: "github ?c Sha (git_createBlob oc (GH_OWNER cfg) (GH_REPO cfg) content ''utf-8'') s = (r1, s1)"
    by (cases "github ?c Sha (git_createBlob oc (GH_OWNER cfg) (GH_REPO cfg) content ''utf-8'') s")
  from github_step [OF g] have c1: "calls s1 = calls s @ [GitHub ?c (map_sum (\<lambda>e. e) Sha r1)]"
    by simp
  show ?case
  proof (cases r1)
    case (Inl e)
    with Cons.prems f g have "s' = s1" by (simp add: await_def)
    with c1 show ?thesis by simp
  next
    case (Inr blob)
    with Cons.prems f g
    have "createBlobs cfg oc files (acc @ [\<lparr>path = p, mode = ''100644'', type = ''blob'', sha = blob\<rparr>]) s1 = (r, s')"
      by (simp add: await_def)
    from Cons.IH [OF this] obtain ev where "calls s' = calls s1 @ ev" "list_all is_blob ev"
      by blast
    with c1 show ?thesis by simp
  qed
qed

lemma resolved_heads_append: "resolved_heads (xs @ ys) = resolved_heads xs @ resolved_heads ys"
  by (induction xs rule: resolved_heads.induct) simp_all

lemma commit_parents_append: "commit_parents (xs @ ys) = commit_parents xs @ commit_parents ys"
  by (induction xs rule: commit_parents.induct) simp_all

lemma branches_created_append: "branches_created (xs @ ys) = branches_created xs @ branches_created ys"
  by (induction xs rule: branches_created.induct) simp_all

lemma pulls_opened_append: "pulls_opened (xs @ ys) = pulls_opened xs @ pulls_opened ys"
  by (induction xs rule: pulls_opened.induct) simp_all

lemma blobs_project:
  "list_all is_blob ev \<Longrightarrow>
   figma_gets ev = [] \<and> resolved_heads ev = [] \<and> commit_parents ev = [] \<and>
   branches_created ev = [] \<and> pulls_opened ev = []"
proof (induction ev)
  case Nil
  show ?case by simp
next
  case (Cons e ev)
  then show ?case by (cases e rule: is_blob.cases) simp_all
qed

lemma await_Inr:
  "await m f s = (Inr b, s') \<Longrightarrow> \<exists>a s1. m s = (Inr a, s1) \<and> f a s1 = (Inr b, s')"
  by (auto simp: await_def split: prod.splits sum.splits)

text \<open>The requests of a publish that returns, in order.\<close>

lemma publish_success:
  assumes "publish cfg oc now baseBranch baseSha files s = (Inr url, s')"
  shows "\<exists>blobs items tree commit.
           list_all is_blob blobs \<and>
           calls s' = calls s @ blobs @
             [GitHub (GitCreateTree (GH_OWNER cfg) (GH_REPO cfg) baseSha items) (Inr (Sha tree)),
              GitHub (GitCreateCommit (GH_OWNER cfg) (GH_REPO cfg) commit_message tree [baseSha])
                (Inr (Sha commit)),
              GitHub (GitCreateRef (GH_OWNER cfg) (GH_REPO cfg)
                        (''refs/heads/figma-sync/'' @ show_nat now) commit) (Inr Created),
              GitHub (PullsCreate (GH_OWNER cfg) (GH_REPO cfg) (''figma-sync/'' @ show_nat now)
                        baseBranch pr_title pr_body) (Inr (HtmlUrl url))]"
  using assms unfolding publish_def Let_def
  apply (elim await_Inr [elim_format] exE conjE)
  apply (drule createBlobs_calls)
  apply (drule github_step)+
  apply (elim exE conjE)
  apply (intro exI conjI)
   apply assumption
  apply simp
  done

lemma openPR_success:
  assumes "openPR cfg oc now files s = (Inr url, s')"
  shows "\<exists>db b blobs items tree commit.
           list_all is_blob blobs \<and>
           calls s' = calls s @
             [GitHub (ReposGet (GH_OWNER cfg) (GH_REPO cfg)) (Inr (DefaultBranch db)),
              GitHub (GitGetRef (GH_OWNER cfg) (GH_REPO cfg) (''heads/'' @ default_or_main db))
                (Inr (Sha b))] @ blobs @
             [GitHub (GitCreateTree (GH_OWNER cfg) (GH_REPO cfg) b items) (Inr (Sha tree)),
              GitHub (GitCreateCommit (GH_OWNER cfg) (GH_REPO cfg) commit_message tree [b])
                (Inr (Sha commit)),
              GitHub (GitCreateRef (GH_OWNER cfg) (GH_REPO cfg)
                        (''refs/heads/figma-sync/'' @ show_nat now) commit) (Inr Created),
              GitHub (PullsCreate (GH_OWNER cfg) (GH_REPO cfg) (''figma-sync/'' @ show_nat now)
                        (default_or_main db) pr_title pr_body) (Inr (HtmlUrl url))]"
  using assms unfolding openPR_def Let_def
  apply (elim await_Inr [elim_format] exE conjE)
  apply (drule publish_success)
  apply (drule github_step)+
  apply (elim exE conjE)
  apply (intro exI conjI)
   apply assumption
  apply simp
  done

lemma tools_openPR_success:
  assumes "tools_openPR cfg oc now files s = (Inr u, s')"
  shows "\<exists>b blobs items tree commit url.
           list_all is_blob blobs \<and>
           calls s' = calls s @
             [GitHub (GitGetRef (GH_OWNER cfg) (GH_REPO cfg) ''heads/main'') (Inr (Sha b))] @ blobs @
             [GitHub (GitCreateTree (GH_OWNER cfg) (GH_REPO cfg) b items) (Inr (Sha tree)),
              GitHub (GitCreateCommit (GH_OWNER cfg) (GH_REPO cfg) commit_message tree [b])
                (Inr (Sha commit)),
              GitHub (GitCreateRef (GH_OWNER cfg) (GH_REPO cfg)
                        (''refs/heads/figma-sync/'' @ show_nat now) commit) (Inr Created),
              GitHub (PullsCreate (GH_OWNER cfg) (GH_REPO cfg) (''figma-sync/'' @ show_nat now)
                        ''main'' pr_title pr_body) (Inr (HtmlUrl url))]"
  using assms unfolding tools_openPR_def
  apply (elim await_Inr [elim_format] exE conjE)
  apply (drule publish_success)
  apply (drule github_step)
  apply (elim exE conjE)
  apply (intro exI conjI)
   apply assumption
  apply (simp add: return_def)
  done

text \<open>Runs on the in-memory host.\<close>

lemma show_nat_one: "show_nat (Suc 0) = ''1''"
  by (simp add: show_nat.simps digit_def)

lemmas mem_run_defs =
  openPR_def tools_openPR_def publish_def await_def return_def github_def default_or_main_def
  mem_octokit_def mem_store_def mem_start_def sample_config_def Let_def

lemma openPR_sample:
  "fst (openPR sample_config mem_octokit now sample_files mem_start)
     = Inr ''https://github.com/acme/app/pull/1''"
  by (simp add: mem_run_defs sample_files_def show_nat_one)

lemma tools_openPR_sample:
  "fst (tools_openPR sample_config mem_octokit now sample_files mem_start) = Inr ()"
  by (simp add: mem_run_defs sample_files_def show_nat_one)

text \<open>
  C4. A publish that returns has sent exactly one commit request, and its parent list is
  the one commit that \<^verbatim>\<open>git.getRef\<close> answered with in this same publish for the head of
  the base branch of the pull request. That request comes before every write of the
  publish (in the root server only \<^verbatim>\<open>repos.get\<close> precedes it), and no other head is
  read. In \<^verbatim>\<open>tools/figma-sync/server.js\<close> the base branch is \<^verbatim>\<open>main\<close>.
\<close>

theorem C4_commit_parent:
  "(openPR cfg oc now files s = (Inr url, s') \<longrightarrow>
      (\<exists>base b pre post.
         new_calls s s' =
           pre @ [GitHub (GitGetRef (GH_OWNER cfg) (GH_REPO cfg) (''heads/'' @ base)) (Inr (Sha b))] @ post \<and>
         host_writes pre = [] \<and>
         resolved_heads (pre @ post) = [] \<and>
         commit_parents (pre @ post) = [[b]] \<and>
         map (\<lambda>(head, pr_base, title, descr). pr_base) (pulls_opened post) = [base])) \<and>
   (tools_openPR cfg oc now files s = (Inr u, s'') \<longrightarrow>
      (\<exists>b post.
         new_calls s s'' =
           [GitHub (GitGetRef (GH_OWNER cfg) (GH_REPO cfg) ''heads/main'') (Inr (Sha b))] @ post \<and>
         resolved_heads post = [] \<and>
         commit_parents post = [[b]] \<and>
         map (\<lambda>(head, pr_base, title, descr). pr_base) (pulls_opened post) = [''main'']))"
proof (intro conjI impI)
  assume "openPR cfg oc now files s = (Inr url, s')"
  from openPR_success [OF this] obtain db b blobs items tree commit where
    bl: "list_all is_blob blobs" and
    c: "calls s' = calls s @
             [GitHub (ReposGet (GH_OWNER cfg) (GH_REPO cfg)) (Inr (DefaultBranch db)),
              GitHub (GitGetRef (GH_OWNER cfg) (GH_REPO cfg) (''heads/'' @ default_or_main db))
                (Inr (Sha b))] @ blobs @
             [GitHub (GitCreateTree (GH_OWNER cfg) (GH_REPO cfg) b items) (Inr (Sha tree)),
              GitHub (GitCreateCommit (GH_OWNER cfg) (GH_REPO cfg) commit_message tree [b])
                (Inr (Sha commit)),
              GitHub (GitCreateRef (GH_OWNER cfg) (GH_REPO cfg)
                        (''refs/heads/figma-sync/'' @ show_nat now) commit) (Inr Created),
              GitHub (PullsCreate (GH_OWNER cfg) (GH_REPO cfg) (''figma-sync/'' @ show_nat now)
                        (default_or_main db) pr_title pr_body) (Inr (HtmlUrl url))]"
    by blast
  let ?pre = "[GitHub (ReposGet (GH_OWNER cfg) (GH_REPO cfg)) (Inr (DefaultBranch db))]"
  let ?post = "blobs @
             [GitHub (GitCreateTree (GH_OWNER cfg) (GH_REPO cfg) b items) (Inr (Sha tree)),
              GitHub (GitCreateCommit (GH_OWNER cfg) (GH_REPO cfg) commit_message tree [b])
                (Inr (Sha commit)),
              GitHub (GitCreateRef (GH_OWNER cfg) (GH_REPO cfg)
                        (''refs/heads/figma-sync/'' @ show_nat now) commit) (Inr Created),
              GitHub (PullsCreate (GH_OWNER cfg) (GH_REPO cfg) (''figma-sync/'' @ show_nat now)
                        (default_or_main db) pr_title pr_body) (Inr (HtmlUrl url))]"
  have 1: "new_calls s s' = ?pre @
      [GitHub (GitGetRef (GH_OWNER cfg) (GH_REPO cfg) (''heads/'' @ default_or_main db)) (Inr (Sha b))]
      @ ?post"
    using c by (simp add: new_calls_def)
  have 2: "host_writes ?pre = []"
    by (simp add: host_writes_def)
  have 3: "resolved_heads (?pre @ ?post) = []"
    using blobs_project [OF bl] by (simp add: resolved_heads_append)
  have 4: "commit_parents (?pre @ ?post) = [[b]]"
    using blobs_project [OF bl] by (simp add: commit_parents_append)
  have 5: "map (\<lambda>(head, pr_base, title, descr). pr_base) (pulls_opened ?post) = [default_or_main db]"
    using blobs_project [OF bl] by (simp add: pulls_opened_append)
  from 1 2 3 4 5 show "\<exists>base b pre post.
         new_calls s s' =
           pre @ [GitHub (GitGetRef (GH_OWNER cfg) (GH_REPO cfg) (''heads/'' @ base)) (Inr (Sha b))] @ post \<and>
         host_writes pre = [] \<and>
         resolved_heads (pre @ post) = [] \<and>
         commit_parents (pre @ post) = [[b]] \<and>
         map (\<lambda>(head, pr_base, title, descr). pr_base) (pulls_opened post) = [base]"
    by (intro exI conjI)
next
  assume "tools_openPR cfg oc now files s = (Inr u, s'')"
  from tools_openPR_success [OF this] obtain b blobs items tree commit url where
    bl: "list_all is_blob blobs" and
    c: "calls s'' = calls s @
             [GitHub (GitGetRef (GH_OWNER cfg) (GH_REPO cfg) ''heads/main'') (Inr (Sha b))] @ blobs @
             [GitHub (GitCreateTree (GH_OWNER cfg) (GH_REPO cfg) b items) (Inr (Sha tree)),
              GitHub (GitCreateCommit (GH_OWNER cfg) (GH_REPO cfg) commit_message tree [b])
                (Inr (Sha commit)),
              GitHub (GitCreateRef (GH_OWNER cfg) (GH_REPO cfg)
                        (''refs/heads/figma-sync/'' @ show_nat now) commit) (Inr Created),
              GitHub (PullsCreate (GH_OWNER cfg) (GH_REPO cfg) (''figma-sync/'' @ show_nat now)
                        ''main'' pr_title pr_body) (Inr (HtmlUrl url))]"
    by blast
  let ?post = "blobs @
             [GitHub (GitCreateTree (GH_OWNER cfg) (GH_REPO cfg) b items) (Inr (Sha tree)),
              GitHub (GitCreateCommit (GH_OWNER cfg) (GH_REPO cfg) commit_message tree [b])
                (Inr (Sha commit)),
              GitHub (GitCreateRef (GH_OWNER cfg) (GH_REPO cfg)
                        (''refs/heads/figma-sync/'' @ show_nat now) commit) (Inr Created),
              GitHub (PullsCreate (GH_OWNER cfg) (GH_REPO cfg) (''figma-sync/'' @ show_nat now)
                        ''main'' pr_title pr_body) (Inr (HtmlUrl url))]"
  have 1: "new_calls s s'' =
      [GitHub (GitGetRef (GH_OWNER cfg) (GH_REPO cfg) ''heads/main'') (Inr (Sha b))] @ ?post"
    using c by (simp add: new_calls_def)
  have 3: "resolved_heads ?post = []"
    using blobs_project [OF bl] by (simp add: resolved_heads_append)
  have 4: "commit_parents ?post = [[b]]"
    using blobs_project [OF bl] by (simp add: commit_parents_append)
  have 5: "map (\<lambda>(head, pr_base, title, descr). pr_base) (pulls_opened ?post) = [''main'']"
    using blobs_project [OF bl] by (simp add: pulls_opened_append)
  from 1 3 4 5 show "\<exists>b post.
         new_calls s s'' =
           [GitHub (GitGetRef (GH_OWNER cfg) (GH_REPO cfg) ''heads/main'') (Inr (Sha b))] @ post \<and>
         resolved_heads post = [] \<and>
         commit_parents post = [[b]] \<and>
         map (\<lambda>(head, pr_base, title, descr). pr_base) (pulls_opened post) = [''main'']"
    by (intro exI conjI)
qed

theorem C4_commit_parent_witness:
  "openPR sample_config mem_octokit 1730000000000 sample_files mem_start
     = (Inr ''https://github.com/acme/app/pull/1'',
        snd (openPR sample_config mem_octokit 1730000000000 sample_files mem_start)) \<and>
   (\<exists>base b pre post.
      new_calls mem_start (snd (openPR sample_config mem_octokit 1730000000000 sample_files mem_start)) =
        pre @ [GitHub (GitGetRef ''acme'' ''app'' (''heads/'' @ base)) (Inr (Sha b))] @ post \<and>
      host_writes pre = [] \<and>
      resolved_heads (pre @ post) = [] \<and>
      commit_parents (pre @ post) = [[b]] \<and>
      map (\<lambda>(head, pr_base, title, descr). pr_base) (pulls_opened post) = [base])"
proof -
  have h: "openPR sample_config mem_octokit 1730000000000 sample_files mem_start
     = (Inr ''https://github.com/acme/app/pull/1'',
        snd (openPR sample_config mem_octokit 1730000000000 sample_files mem_start))"
    using openPR_sample [of 1730000000000] by (simp add: prod_eq_iff)
  show ?thesis
    using h C4_commit_parent [of sample_config mem_octokit 1730000000000 sample_files mem_start
        "''https://github.com/acme/app/pull/1''"
        "snd (openPR sample_config mem_octokit 1730000000000 sample_files mem_start)"]
    by (simp add: sample_config_def)
qed

text \<open>
  C8 (as amended). Every pull request a publish opens has the fixed title
  \<^verbatim>\<open>Figma -> GitHub auto-sync\<close> (with the arrow U+2192) and the fixed body, whatever the
  files are; no summary of added, modified or removed files is computed.
\<close>

theorem C8_fixed_title:
  "(openPR cfg oc now files s = (Inr url, s') \<longrightarrow>
      map (\<lambda>(head, pr_base, title, descr). (title, descr)) (pulls_opened (new_calls s s'))
        = [(pr_title, pr_body)]) \<and>
   (tools_openPR cfg oc now files s = (Inr u, s'') \<longrightarrow>
      map (\<lambda>(head, pr_base, title, descr). (title, descr)) (pulls_opened (new_calls s s''))
        = [(pr_title, pr_body)])"
proof (intro conjI impI)
  assume "openPR cfg oc now files s = (Inr url, s')"
  from openPR_success [OF this] obtain db b blobs items tree commit where
    bl: "list_all is_blob blobs" and
    c: "calls s' = calls s @
             [GitHub (ReposGet (GH_OWNER cfg) (GH_REPO cfg)) (Inr (DefaultBranch db)),
              GitHub (GitGetRef (GH_OWNER cfg) (GH_REPO cfg) (''heads/'' @ default_or_main db))
                (Inr (Sha b))] @ blobs @
             [GitHub (GitCreateTree (GH_OWNER cfg) (GH_REPO cfg) b items) (Inr (Sha tree)),
              GitHub (GitCreateCommit (GH_OWNER cfg) (GH_REPO cfg) commit_message tree [b])
                (Inr (Sha commit)),
              GitHub (GitCreateRef (GH_OWNER cfg) (GH_REPO cfg)
                        (''refs/heads/figma-sync/'' @ show_nat now) commit) (Inr Created),
              GitHub (PullsCreate (GH_OWNER cfg) (GH_REPO cfg) (''figma-sync/'' @ show_nat now)
                        (default_or_main db) pr_title pr_body) (Inr (HtmlUrl url))]"
    by blast
  show "map (\<lambda>(head, pr_base, title, descr). (title, descr)) (pulls_opened (new_calls s s'))
        = [(pr_title, pr_body)]"
    using blobs_project [OF bl] by (simp add: new_calls_append [OF c] pulls_opened_append)
next
  assume "tools_openPR cfg oc now files s = (Inr u, s'')"
  from tools_openPR_success [OF this] obtain b blobs items tree commit url where
    bl: "list_all is_blob blobs" and
    c: "calls s'' = calls s @
             [GitHub (GitGetRef (GH_OWNER cfg) (GH_REPO cfg) ''heads/main'') (Inr (Sha b))] @ blobs @
             [GitHub (GitCreateTree (GH_OWNER cfg) (GH_REPO cfg) b items) (Inr (Sha tree)),
              GitHub (GitCreateCommit (GH_OWNER cfg) (GH_REPO cfg) commit_message tree [b])
                (Inr (Sha commit)),
              GitHub (GitCreateRef (GH_OWNER cfg) (GH_REPO cfg)
                        (''refs/heads/figma-sync/'' @ show_nat now) commit) (Inr Created),
              GitHub (PullsCreate (GH_OWNER cfg) (GH_REPO cfg) (''figma-sync/'' @ show_nat now)
                        ''main'' pr_title pr_body) (Inr (HtmlUrl url))]"
    by blast
  show "map (\<lambda>(head, pr_base, title, descr). (title, descr)) (pulls_opened (new_calls s s''))
        = [(pr_title, pr_body)]"
    using blobs_project [OF bl] by (simp add: new_calls_append [OF c] pulls_opened_append)
qed

theorem C8_fixed_title_witness:
  "tools_openPR sample_config mem_octokit 1730000000000 sample_files mem_start
     = (Inr (), snd (tools_openPR sample_config mem_octokit 1730000000000 sample_files mem_start)) \<and>
   map (\<lambda>(head, pr_base, title, descr). (title, descr))
     (pulls_opened (new_calls mem_start
        (snd (tools_openPR sample_config mem_octokit 1730000000000 sample_files mem_start))))
     = [(pr_title, pr_body)]"
proof -
  have h: "tools_openPR sample_config mem_octokit 1730000000000 sample_files mem_start
     = (Inr (), snd (tools_openPR sample_config mem_octokit 1730000000000 sample_files mem_start))"
    using tools_openPR_sample [of 1730000000000] by (simp add: prod_eq_iff)
  show ?thesis
    using h C8_fixed_title [of sample_config mem_octokit 1730000000000 sample_files mem_start _ _
        "()" "snd (tools_openPR sample_config mem_octokit 1730000000000 sample_files mem_start)"]
    by simp
qed

text \<open>
  The claim as stated fails on a publish of two new files: its title is the one a publish
  of one file gets, and no count stands in it.
\<close>

theorem C8_title_counterexample:
  "map (\<lambda>(head, pr_base, title, descr). title)
     (pulls_opened (new_calls mem_start
        (snd (openPR sample_config mem_octokit 1730000000000 sample_files mem_start))))
     = [''Figma '' @ [CHR 0xE2, CHR 0x86, CHR 0x92] @ '' GitHub auto-sync''] \<and>
   map (\<lambda>(head, pr_base, title, descr). title)
     (pulls_opened (new_calls mem_start
        (snd (openPR sample_config mem_octokit 1730000000000 [(''src/a.ts'', ''export const a = 1;'')] mem_start))))
     = [''Figma '' @ [CHR 0xE2, CHR 0x86, CHR 0x92] @ '' GitHub auto-sync''] \<and>
   length sample_files = 2 \<and>
   CHR ''2'' \<notin> set (''Figma '' @ [CHR 0xE2, CHR 0x86, CHR 0x92] @ '' GitHub auto-sync'')"
  by (simp add: mem_run_defs sample_files_def new_calls_def pr_title_def)

section \<open>The runs of the webhook\<close>

lemma fetchFigmaDoc_step:
  "fetchFigmaDoc cfg srv s = (r, s1) \<Longrightarrow>
   calls s1 = calls s @ [FigmaGet (''https://api.figma.com/v1/files/'' @ FIGMA_FILE_ID cfg) (FIGMA_TOKEN cfg)] \<and>
   host s1 = host s \<and> r = fst (fetchFigmaDoc cfg srv t)"
  by (auto simp: fetchFigmaDoc_def Let_def split: sum.splits if_splits)

lemma tools_fetchFigmaDoc_step:
  "tools_fetchFigmaDoc cfg srv s = (r, s1) \<Longrightarrow>
   calls s1 = calls s @ [FigmaGet (''https://api.figma.com/v1/files/'' @ FIGMA_FILE_ID cfg) (FIGMA_TOKEN cfg)] \<and>
   host s1 = host s \<and> r = fst (tools_fetchFigmaDoc cfg srv t)"
  by (auto simp: tools_fetchFigmaDoc_def Let_def split: sum.splits if_splits)

lemma received_then_skip:
  "received_line t f = Inr l \<Longrightarrow> \<exists>l'. skip_line f = Inr l'"
  by (auto simp: received_line_def skip_line_def split: sum.splits)

text \<open>The ways a run of the handler can go, for either server.\<close>

lemma webhook_cases:
  assumes "webhook cfg srv now req s = (resp, s')"
  shows
   "(\<exists>e. received_line (eventType_of req) (fileId_of req) = Inl e \<and>
         resp = \<lparr>code = 500, sent = StringOf e\<rparr> \<and> s' = s) \<or>
    (truthy (fileId_of req) \<and> fileId_of req \<noteq> JStr (FIGMA_FILE_ID cfg) \<and>
       resp = \<lparr>code = 200, sent = Text ''OK''\<rparr> \<and> s' = s) \<or>
    (\<not> (truthy (fileId_of req) \<and> fileId_of req \<noteq> JStr (FIGMA_FILE_ID cfg)) \<and>
       ((\<exists>e. fetchFigmaDoc cfg srv s = (Inl e, s') \<and> resp = \<lparr>code = 500, sent = StringOf e\<rparr>) \<or>
        (\<exists>doc s1. fetchFigmaDoc cfg srv s = (Inr doc, s1) \<and>
           ((\<exists>e. generateCode cfg doc = Inl e \<and> resp = \<lparr>code = 500, sent = StringOf e\<rparr> \<and> s' = s1) \<or>
            (\<exists>files. generateCode cfg doc = Inr files \<and>
               ((\<exists>e. openPR cfg (octo srv) now files s1 = (Inl e, s') \<and>
                     resp = \<lparr>code = 500, sent = StringOf e\<rparr>) \<or>
                (\<exists>url. openPR cfg (octo srv) now files s1 = (Inr url, s') \<and>
                     resp = \<lparr>code = 200, sent = Text ''OK''\<rparr>)))))))"
proof (cases "received_line (eventType_of req) (fileId_of req)")
  case (Inl e)
  with assms show ?thesis
    by (simp add: webhook_def webhook_try_def await_def console_log_def Let_def)
next
  case (Inr l)
  from received_then_skip [OF Inr] obtain l' where sk: "skip_line (fileId_of req) = Inr l'" ..
  show ?thesis
  proof (cases "truthy (fileId_of req) \<and> fileId_of req \<noteq> JStr (FIGMA_FILE_ID cfg)")
    case True
    with assms Inr sk show ?thesis
      by (simp add: webhook_def webhook_try_def await_def console_log_def return_def Let_def)
  next
    case False
    obtain r1 s1 where f: "fetchFigmaDoc cfg srv s = (r1, s1)"
      by (cases "fetchFigmaDoc cfg srv s")
    show ?thesis
    proof (cases r1)
      case (Inl e)
      with assms Inr False f show ?thesis
        by (simp add: webhook_def webhook_try_def await_def console_log_def Let_def)
    next
      case doc: (Inr doc)
      show ?thesis
      proof (cases "generateCode cfg doc")
        case (Inl e)
        with assms Inr False f doc show ?thesis
          by (simp add: webhook_def webhook_try_def await_def console_log_def pure_def Let_def)
      next
        case files: (Inr files)
        obtain r2 s2 where p: "openPR cfg (octo srv) now files s1 = (r2, s2)"
          by (cases "openPR cfg (octo srv) now files s1")
        show ?thesis
        proof (cases r2)
          case (Inl e)
          with assms Inr False f doc files p show ?thesis
            by (simp add: webhook_def webhook_try_def await_def console_log_def pure_def Let_def)
        next
          case url: (Inr url)
          with assms Inr False f doc files p show ?thesis
            by (simp add: webhook_def webhook_try_def await_def console_log_def pure_def
                return_def Let_def)
        qed
      qed
    qed
  qed
qed

lemma tools_webhook_cases:
  assumes "tools_webhook cfg srv now req s = (resp, s')"
  shows
   "(\<exists>e. tools_fetchFigmaDoc cfg srv s = (Inl e, s') \<and> resp = \<lparr>code = 500, sent = StringOf e\<rparr>) \<or>
    (\<exists>doc s1. tools_fetchFigmaDoc cfg srv s = (Inr doc, s1) \<and>
       ((\<exists>e. tools_generateCode cfg doc = Inl e \<and> resp = \<lparr>code = 500, sent = StringOf e\<rparr> \<and> s' = s1) \<or>
        (\<exists>files. tools_generateCode cfg doc = Inr files \<and>
           ((\<exists>e. tools_openPR cfg (octo srv) now files s1 = (Inl e, s') \<and>
                 resp = \<lparr>code = 500, sent = StringOf e\<rparr>) \<or>
            (tools_openPR cfg (octo srv) now files s1 = (Inr (), s') \<and>
                 resp = \<lparr>code = 200, sent = Text ''OK''\<rparr>)))))"
proof -
  obtain r1 s1 where f: "tools_fetchFigmaDoc cfg srv s = (r1, s1)"
    by (cases "tools_fetchFigmaDoc cfg srv s")
  show ?thesis
  proof (cases r1)
    case (Inl e)
    with assms f show ?thesis
      by (simp add: tools_webhook_def await_def)
  next
    case doc: (Inr doc)
    show ?thesis
    proof (cases "tools_generateCode cfg doc")
      case (Inl e)
      with assms f doc show ?thesis
        by (simp add: tools_webhook_def await_def pure_def)
    next
      case files: (Inr files)
      obtain r2 s2 where p: "tools_openPR cfg (octo srv) now files s1 = (r2, s2)"
        by (cases "tools_openPR cfg (octo srv) now files s1")
      show ?thesis
      proof (cases r2)
        case (Inl e)
        with assms f doc files p show ?thesis
          by (simp add: tools_webhook_def await_def pure_def)
      next
        case (Inr u)
        with assms f doc files p show ?thesis
          by (simp add: tools_webhook_def await_def pure_def return_def)
      qed
    qed
  qed
qed

text \<open>Runs on the in-memory host.\<close>

lemma show_nat_digit: "n < 10 \<Longrightarrow> show_nat n = [digit n]"
  by (simp add: show_nat.simps)

lemma show_nat_digits: "10 \<le> n \<Longrightarrow> show_nat n = show_nat (n div 10) @ [digit (n mod 10)]"
  by (simp add: show_nat.simps [of n])

lemma show_nat_403: "show_nat 403 = ''403''"
  by (simp add: show_nat_digit show_nat_digits digit_def)

lemma show_nat_first: "show_nat 1730000000000 = ''1730000000000''"
  by (simp add: show_nat_digit show_nat_digits digit_def)

lemma show_nat_second: "show_nat 1730000060000 = ''1730000060000''"
  by (simp add: show_nat_digit show_nat_digits digit_def)

lemmas webhook_run_defs =
  webhook_def webhook_try_def tools_webhook_def console_log_def received_line_def skip_line_def
  eventType_of_def fileId_of_def js_or_def pure_def fetchFigmaDoc_def tools_fetchFigmaDoc_def ok_def
  mem_services_def figma_serving_def generateCode_def tools_generateCode_def generateFiles_eq

lemma mem_webhook_run:
  assumes "map_of (refs (host s)) ''refs/heads/main'' = Some b"
    and "map_of (refs (host s)) (''refs/heads/figma-sync/'' @ show_nat now) = None"
  shows "fst (webhook sample_config (mem_services 200 sample_document) now sample_request s)
           = \<lparr>code = 200, sent = Text ''OK''\<rparr> \<and>
         branches_created (new_calls s
             (snd (webhook sample_config (mem_services 200 sample_document) now sample_request s)))
           = [''refs/heads/figma-sync/'' @ show_nat now] \<and>
         map (\<lambda>(head, pr_base, title, descr). head) (pulls_opened (new_calls s
             (snd (webhook sample_config (mem_services 200 sample_document) now sample_request s))))
           = [''figma-sync/'' @ show_nat now] \<and>
         refs (host (snd (webhook sample_config (mem_services 200 sample_document) now sample_request s)))
           = refs (host s) @ [(''refs/heads/figma-sync/'' @ show_nat now,
                               ''object-'' @ show_nat (stored (host s) + 5))] \<and>
         length (pulls (host (snd (webhook sample_config (mem_services 200 sample_document) now sample_request s))))
           = Suc (length (pulls (host s)))"
  using assms
  apply (simp add: webhook_run_defs openPR_def publish_def await_def return_def github_def
      default_or_main_def mem_octokit_def mem_store_def sample_config_def Let_def
      sample_request_def topFrames_sample new_calls_def)
  apply (simp add: eval_nat_numeral)
  done

lemma mem_tools_webhook_run:
  assumes "map_of (refs (host s)) ''refs/heads/main'' = Some b"
    and "map_of (refs (host s)) (''refs/heads/figma-sync/'' @ show_nat now) = None"
  shows "fst (tools_webhook sample_config (mem_services 200 sample_document) now sample_request s)
           = \<lparr>code = 200, sent = Text ''OK''\<rparr> \<and>
         branches_created (new_calls s
             (snd (tools_webhook sample_config (mem_services 200 sample_document) now sample_request s)))
           = [''refs/heads/figma-sync/'' @ show_nat now] \<and>
         map (\<lambda>(head, pr_base, title, descr). head) (pulls_opened (new_calls s
             (snd (tools_webhook sample_config (mem_services 200 sample_document) now sample_request s))))
           = [''figma-sync/'' @ show_nat now] \<and>
         refs (host (snd (tools_webhook sample_config (mem_services 200 sample_document) now sample_request s)))
           = refs (host s) @ [(''refs/heads/figma-sync/'' @ show_nat now,
                               ''object-'' @ show_nat (stored (host s) + 5))] \<and>
         length (pulls (host (snd (tools_webhook sample_config (mem_services 200 sample_document) now sample_request s))))
           = Suc (length (pulls (host s)))"
  using assms
  apply (simp add: webhook_run_defs tools_openPR_def publish_def await_def return_def github_def
      mem_octokit_def mem_store_def sample_config_def Let_def
      sample_request_def topFrames_sample new_calls_def)
  apply (simp add: eval_nat_numeral)
  done

lemma first_run_facts:
  "fst first_run = \<lparr>code = 200, sent = Text ''OK''\<rparr> \<and>
   branches_created (new_calls mem_start (snd first_run))
     = [''refs/heads/figma-sync/'' @ show_nat 1730000000000] \<and>
   map (\<lambda>(head, pr_base, title, descr). head) (pulls_opened (new_calls mem_start (snd first_run)))
     = [''figma-sync/'' @ show_nat 1730000000000] \<and>
   refs (host (snd first_run))
     = [(''refs/heads/main'', ''base-0''),
        (''refs/heads/figma-sync/'' @ show_nat 1730000000000, ''object-'' @ show_nat 5)] \<and>
   length (pulls (host (snd first_run))) = 1"
proof -
  have h1: "map_of (refs (host mem_start)) ''refs/heads/main'' = Some ''base-0''"
    by (simp add: mem_start_def)
  have h2: "map_of (refs (host mem_start)) (''refs/heads/figma-sync/'' @ show_nat 1730000000000) = None"
    by (simp add: mem_start_def)
  have h3: "refs (host mem_start) = [(''refs/heads/main'', ''base-0'')]"
    "stored (host mem_start) = 0" "pulls (host mem_start) = []"
    by (simp_all add: mem_start_def)
  show ?thesis
    using mem_webhook_run [OF h1 h2] by (simp add: first_run_def h3)
qed

lemma tools_first_run_facts:
  "fst tools_first_run = \<lparr>code = 200, sent = Text ''OK''\<rparr> \<and>
   branches_created (new_calls mem_start (snd tools_first_run))
     = [''refs/heads/figma-sync/'' @ show_nat 1730000000000] \<and>
   map (\<lambda>(head, pr_base, title, descr). head) (pulls_opened (new_calls mem_start (snd tools_first_run)))
     = [''figma-sync/'' @ show_nat 1730000000000] \<and>
   refs (host (snd tools_first_run))
     = [(''refs/heads/main'', ''base-0''),
        (''refs/heads/figma-sync/'' @ show_nat 1730000000000, ''object-'' @ show_nat 5)] \<and>
   length (pulls (host (snd tools_first_run))) = 1"
proof -
  have h1: "map_of (refs (host mem_start)) ''refs/heads/main'' = Some ''base-0''"
    by (simp add: mem_start_def)
  have h2: "map_of (refs (host mem_start)) (''refs/heads/figma-sync/'' @ show_nat 1730000000000) = None"
    by (simp add: mem_start_def)
  have h3: "refs (host mem_start) = [(''refs/heads/main'', ''base-0'')]"
    "stored (host mem_start) = 0" "pulls (host mem_start) = []"
    by (simp_all add: mem_start_def)
  show ?thesis
    using mem_tools_webhook_run [OF h1 h2] by (simp add: tools_first_run_def h3)
qed

text \<open>
  C1 (as amended). Every run of the pipeline that is not skipped for another file and
  answers 200 has created one new branch \<^verbatim>\<open>figma-sync/<Date.now()>\<close> and opened one
  new pull request from it, whatever earlier runs left on the host. Nothing is compared
  with a previous run, so the second of two runs on an unchanged document publishes again.
\<close>

theorem C1_every_run_publishes:
  "(\<not> (truthy (fileId_of req) \<and> fileId_of req \<noteq> JStr (FIGMA_FILE_ID cfg)) \<and>
      webhook cfg srv now req s = (resp, s') \<and> code resp = 200 \<longrightarrow>
      branches_created (new_calls s s') = [''refs/heads/figma-sync/'' @ show_nat now] \<and>
      map (\<lambda>(head, pr_base, title, descr). head) (pulls_opened (new_calls s s'))
        = [''figma-sync/'' @ show_nat now]) \<and>
   (tools_webhook cfg srv now req s = (resp', s'') \<and> code resp' = 200 \<longrightarrow>
      branches_created (new_calls s s'') = [''refs/heads/figma-sync/'' @ show_nat now] \<and>
      map (\<lambda>(head, pr_base, title, descr). head) (pulls_opened (new_calls s s''))
        = [''figma-sync/'' @ show_nat now])"
proof (rule conjI; rule impI; elim conjE)
  assume pass: "\<not> (truthy (fileId_of req) \<and> fileId_of req \<noteq> JStr (FIGMA_FILE_ID cfg))"
    and run: "webhook cfg srv now req s = (resp, s')"
    and ok: "code resp = 200"
  from webhook_cases [OF run] pass ok obtain doc s1 files url where
    f: "fetchFigmaDoc cfg srv s = (Inr doc, s1)" and
    p: "openPR cfg (octo srv) now files s1 = (Inr url, s')"
    by auto
  from fetchFigmaDoc_step [OF f]
  have c1: "calls s1 = calls s @
      [FigmaGet (''https://api.figma.com/v1/files/'' @ FIGMA_FILE_ID cfg) (FIGMA_TOKEN cfg)]"
    by simp
  from openPR_success [OF p] obtain db b blobs items tree commit where
    bl: "list_all is_blob blobs" and
    c2: "calls s' = calls s1 @
             [GitHub (ReposGet (GH_OWNER cfg) (GH_REPO cfg)) (Inr (DefaultBranch db)),
              GitHub (GitGetRef (GH_OWNER cfg) (GH_REPO cfg) (''heads/'' @ default_or_main db))
                (Inr (Sha b))] @ blobs @
             [GitHub (GitCreateTree (GH_OWNER cfg) (GH_REPO cfg) b items) (Inr (Sha tree)),
              GitHub (GitCreateCommit (GH_OWNER cfg) (GH_REPO cfg) commit_message tree [b])
                (Inr (Sha commit)),
              GitHub (GitCreateRef (GH_OWNER cfg) (GH_REPO cfg)
                        (''refs/heads/figma-sync/'' @ show_nat now) commit) (Inr Created),
              GitHub (PullsCreate (GH_OWNER cfg) (GH_REPO cfg) (''figma-sync/'' @ show_nat now)
                        (default_or_main db) pr_title pr_body) (Inr (HtmlUrl url))]"
    by blast
  show "branches_created (new_calls s s') = [''refs/heads/figma-sync/'' @ show_nat now] \<and>
      map (\<lambda>(head, pr_base, title, descr). head) (pulls_opened (new_calls s s'))
        = [''figma-sync/'' @ show_nat now]"
    using blobs_project [OF bl]
    by (simp add: new_calls_def c1 c2 branches_created_append pulls_opened_append)
next
  assume run: "tools_webhook cfg srv now req s = (resp', s'')"
    and ok: "code resp' = 200"
  from tools_webhook_cases [OF run] ok obtain doc s1 files where
    f: "tools_fetchFigmaDoc cfg srv s = (Inr doc, s1)" and
    p: "tools_openPR cfg (octo srv) now files s1 = (Inr (), s'')"
    by auto
  from tools_fetchFigmaDoc_step [OF f]
  have c1: "calls s1 = calls s @
      [FigmaGet (''https://api.figma.com/v1/files/'' @ FIGMA_FILE_ID cfg) (FIGMA_TOKEN cfg)]"
    by simp
  from tools_openPR_success [OF p] obtain b blobs items tree commit url where
    bl: "list_all is_blob blobs" and
    c2: "calls s'' = calls s1 @
             [GitHub (GitGetRef (GH_OWNER cfg) (GH_REPO cfg) ''heads/main'') (Inr (Sha b))] @ blobs @
             [GitHub (GitCreateTree (GH_OWNER cfg) (GH_REPO cfg) b items) (Inr (Sha tree)),
              GitHub (GitCreateCommit (GH_OWNER cfg) (GH_REPO cfg) commit_message tree [b])
                (Inr (Sha commit)),
              GitHub (GitCreateRef (GH_OWNER cfg) (GH_REPO cfg)
                        (''refs/heads/figma-sync/'' @ show_nat now) commit) (Inr Created),
              GitHub (PullsCreate (GH_OWNER cfg) (GH_REPO cfg) (''figma-sync/'' @ show_nat now)
                        ''main'' pr_title pr_body) (Inr (HtmlUrl url))]"
    by blast
  show "branches_created (new_calls s s'') = [''refs/heads/figma-sync/'' @ show_nat now] \<and>
      map (\<lambda>(head, pr_base, title, descr). head) (pulls_opened (new_calls s s''))
        = [''figma-sync/'' @ show_nat now]"
    using blobs_project [OF bl]
    by (simp add: new_calls_def c1 c2 branches_created_append pulls_opened_append)
qed

theorem C1_every_run_publishes_witness:
  "\<not> (truthy (fileId_of sample_request) \<and>
        fileId_of sample_request \<noteq> JStr (FIGMA_FILE_ID sample_config)) \<and>
   code (fst first_run) = 200 \<and>
   branches_created (new_calls mem_start (snd first_run))
     = [''refs/heads/figma-sync/'' @ show_nat 1730000000000] \<and>
   map (\<lambda>(head, pr_base, title, descr). head) (pulls_opened (new_calls mem_start (snd first_run)))
     = [''figma-sync/'' @ show_nat 1730000000000]"
proof -
  have h1: "\<not> (truthy (fileId_of sample_request) \<and>
        fileId_of sample_request \<noteq> JStr (FIGMA_FILE_ID sample_config))"
    by (simp add: fileId_of_def sample_request_def js_or_def sample_config_def)
  have h2: "webhook sample_config (mem_services 200 sample_document) 1730000000000 sample_request
      mem_start = (fst first_run, snd first_run)"
    by (simp add: first_run_def)
  have h3: "code (fst first_run) = 200"
    using first_run_facts by simp
  show ?thesis
    using h1 h3
      C1_every_run_publishes [THEN conjunct1, rule_format, OF conjI [OF h1 conjI [OF h2 h3]]]
    by simp
qed

text \<open>
  The claim as stated fails on two runs a minute apart on the sample document: the second
  run creates a second branch and a second pull request.
\<close>

theorem C1_second_run_counterexample:
  "fst second_run = \<lparr>code = 200, sent = Text ''OK''\<rparr> \<and>
   branches_created (new_calls (snd first_run) (snd second_run))
     = [''refs/heads/figma-sync/1730000060000''] \<and>
   map (\<lambda>(head, pr_base, title, descr). head)
       (pulls_opened (new_calls (snd first_run) (snd second_run)))
     = [''figma-sync/1730000060000''] \<and>
   map fst (refs (host (snd second_run)))
     = [''refs/heads/main'', ''refs/heads/figma-sync/1730000000000'',
        ''refs/heads/figma-sync/1730000060000''] \<and>
   length (pulls (host (snd second_run))) = 2 \<and>
   fst tools_second_run = \<lparr>code = 200, sent = Text ''OK''\<rparr> \<and>
   branches_created (new_calls (snd tools_first_run) (snd tools_second_run))
     = [''refs/heads/figma-sync/1730000060000''] \<and>
   length (pulls (host (snd tools_second_run))) = 2"
proof -
  have h1: "map_of (refs (host (snd first_run))) ''refs/heads/main'' = Some ''base-0''"
    using first_run_facts by simp
  have h2: "map_of (refs (host (snd first_run))) (''refs/heads/figma-sync/'' @ show_nat 1730000060000)
      = None"
    using first_run_facts by (simp add: show_nat_first show_nat_second)
  have root: "fst second_run = \<lparr>code = 200, sent = Text ''OK''\<rparr> \<and>
   branches_created (new_calls (snd first_run) (snd second_run))
     = [''refs/heads/figma-sync/1730000060000''] \<and>
   map (\<lambda>(head, pr_base, title, descr). head)
       (pulls_opened (new_calls (snd first_run) (snd second_run)))
     = [''figma-sync/1730000060000''] \<and>
   map fst (refs (host (snd second_run)))
     = [''refs/heads/main'', ''refs/heads/figma-sync/1730000000000'',
        ''refs/heads/figma-sync/1730000060000''] \<and>
   length (pulls (host (snd second_run))) = 2"
    using mem_webhook_run [OF h1 h2] first_run_facts
    by (simp add: second_run_def show_nat_first show_nat_second)
  have t1: "map_of (refs (host (snd tools_first_run))) ''refs/heads/main'' = Some ''base-0''"
    using tools_first_run_facts by simp
  have t2: "map_of (refs (host (snd tools_first_run)))
      (''refs/heads/figma-sync/'' @ show_nat 1730000060000) = None"
    using tools_first_run_facts by (simp add: show_nat_first show_nat_second)
  have tools: "fst tools_second_run = \<lparr>code = 200, sent = Text ''OK''\<rparr> \<and>
   branches_created (new_calls (snd tools_first_run) (snd tools_second_run))
     = [''refs/heads/figma-sync/1730000060000''] \<and>
   length (pulls (host (snd tools_second_run))) = 2"
    using mem_tools_webhook_run [OF t1 t2] tools_first_run_facts
    by (simp add: tools_second_run_def show_nat_first show_nat_second)
  from root tools show ?thesis by simp
qed

text \<open>
  C5. In every run in which the fetch of the design document fails (the request rejects,
  the response is not OK, or its body does not parse), the handler answers 500 with the
  text of the fetch error and the run has sent no request at all to the version-control
  host, read or write; the host state is what it was. The root server fetches only in
  the runs that pass its file filter; the other server fetches in every run.
\<close>

theorem C5_fetch_failure:
  "(fst (fetchFigmaDoc cfg srv s) = Inl e \<and> webhook cfg srv now req s = (resp, s') \<and>
      figma_gets (new_calls s s') \<noteq> [] \<longrightarrow>
      resp = \<lparr>code = 500, sent = StringOf e\<rparr> \<and> github_calls (new_calls s s') = [] \<and>
      host s' = host s) \<and>
   (fst (tools_fetchFigmaDoc cfg srv s) = Inl e' \<and> tools_webhook cfg srv now req s = (resp', s'') \<longrightarrow>
      resp' = \<lparr>code = 500, sent = StringOf e'\<rparr> \<and> github_calls (new_calls s s'') = [] \<and>
      host s'' = host s)"
proof (rule conjI; rule impI; elim conjE)
  assume fail: "fst (fetchFigmaDoc cfg srv s) = Inl e"
    and run: "webhook cfg srv now req s = (resp, s')"
    and fetched: "figma_gets (new_calls s s') \<noteq> []"
  from fetched have moved: "s' \<noteq> s"
    by (auto simp: new_calls_def)
  from webhook_cases [OF run] moved fail
  have f: "fetchFigmaDoc cfg srv s = (Inl e, s')" and r: "resp = \<lparr>code = 500, sent = StringOf e\<rparr>"
    by auto
  from fetchFigmaDoc_step [OF f]
  show "resp = \<lparr>code = 500, sent = StringOf e\<rparr> \<and> github_calls (new_calls s s') = [] \<and> host s' = host s"
    using r by (simp add: new_calls_def)
next
  assume fail: "fst (tools_fetchFigmaDoc cfg srv s) = Inl e'"
    and run: "tools_webhook cfg srv now req s = (resp', s'')"
  from tools_webhook_cases [OF run] fail
  have f: "tools_fetchFigmaDoc cfg srv s = (Inl e', s'')" and r: "resp' = \<lparr>code = 500, sent = StringOf e'\<rparr>"
    by auto
  from tools_fetchFigmaDoc_step [OF f]
  show "resp' = \<lparr>code = 500, sent = StringOf e'\<rparr> \<and> github_calls (new_calls s s'') = [] \<and> host s'' = host s"
    using r by (simp add: new_calls_def)
qed

theorem C5_fetch_failure_witness:
  "fst (fetchFigmaDoc sample_config (mem_services 403 sample_document) mem_start)
     = Inl (Error ''Figma API error: 403 '') \<and>
   figma_gets (new_calls mem_start
     (snd (webhook sample_config (mem_services 403 sample_document) 1730000000000 sample_request mem_start)))
     \<noteq> [] \<and>
   fst (webhook sample_config (mem_services 403 sample_document) 1730000000000 sample_request mem_start)
     = \<lparr>code = 500, sent = StringOf (Error ''Figma API error: 403 '')\<rparr> \<and>
   github_calls (new_calls mem_start
     (snd (webhook sample_config (mem_services 403 sample_document) 1730000000000 sample_request mem_start)))
     = []"
proof -
  let ?run = "webhook sample_config (mem_services 403 sample_document) 1730000000000 sample_request mem_start"
  have h1: "fst (fetchFigmaDoc sample_config (mem_services 403 sample_document) mem_start)
     = Inl (Error ''Figma API error: 403 '')"
    by (simp add: fetchFigmaDoc_def mem_services_def figma_serving_def ok_def show_nat_403)
  have h2: "?run = (fst ?run, snd ?run)"
    by simp
  have h3: "figma_gets (new_calls mem_start (snd ?run)) \<noteq> []"
    by (simp add: webhook_run_defs mem_run_defs sample_request_def new_calls_def)
  show ?thesis
    using h1 h3
      C5_fetch_failure [THEN conjunct1, rule_format, OF conjI [OF h1 conjI [OF h2 h3]]]
    by simp
qed

text \<open>
  C10 (as amended). For every request whose file identifier (\<^verbatim>\<open>file_key\<close>, else
  \<^verbatim>\<open>file_id\<close>) is truthy and differs from the configured identifier, the run leaves the
  state as it was: no Figma request, no generation, no GitHub request. The answer is 200
  whenever the log line can be built from the event type and the file identifier, as it
  can when both are strings.
\<close>

theorem C10_foreign_file:
  "truthy (fileId_of req) \<Longrightarrow> fileId_of req \<noteq> JStr (FIGMA_FILE_ID cfg) \<Longrightarrow>
   webhook cfg srv now req s = (resp, s') \<Longrightarrow>
   s' = s \<and>
   (received_line (eventType_of req) (fileId_of req) = Inr l \<longrightarrow>
      resp = \<lparr>code = 200, sent = Text ''OK''\<rparr>)"
  by (drule webhook_cases) auto

theorem C10_foreign_file_witness:
  "truthy (fileId_of foreign_request) \<and>
   fileId_of foreign_request \<noteq> JStr (FIGMA_FILE_ID sample_config) \<and>
   received_line (eventType_of foreign_request) (fileId_of foreign_request)
     = Inr ''[webhook] type=FILE_UPDATE file=OTHER'' \<and>
   snd (webhook sample_config (mem_services 200 sample_document) 1730000000000 foreign_request mem_start)
     = mem_start \<and>
   fst (webhook sample_config (mem_services 200 sample_document) 1730000000000 foreign_request mem_start)
     = \<lparr>code = 200, sent = Text ''OK''\<rparr>"
proof -
  let ?run = "webhook sample_config (mem_services 200 sample_document) 1730000000000 foreign_request mem_start"
  have h1: "truthy (fileId_of foreign_request)"
    by (simp add: fileId_of_def foreign_request_def js_or_def)
  have h2: "fileId_of foreign_request \<noteq> JStr (FIGMA_FILE_ID sample_config)"
    by (simp add: fileId_of_def foreign_request_def js_or_def sample_config_def)
  have h3: "?run = (fst ?run, snd ?run)"
    by simp
  have h4: "received_line (eventType_of foreign_request) (fileId_of foreign_request)
     = Inr ''[webhook] type=FILE_UPDATE file=OTHER''"
    by (simp add: received_line_def eventType_of_def fileId_of_def foreign_request_def js_or_def)
  show ?thesis
    using h1 h2 h4 C10_foreign_file [OF h1 h2 h3, of "''[webhook] type=FILE_UPDATE file=OTHER''"]
    by simp
qed

text \<open>
  The claim as stated fails on a request for the file \<^verbatim>\<open>OTHER\<close> whose event type is
  an object with an own \<^verbatim>\<open>toString\<close> property: building the log line throws and the
  answer is 500. A request whose file key is the empty string is treated as naming no
  file: the run fetches and publishes.
\<close>

theorem C10_unprintable_counterexample:
  "fileId_of unprintable_request = JStr ''OTHER'' \<and>
   FIGMA_FILE_ID sample_config = ''FILE1'' \<and>
   fst (webhook sample_config (mem_services 200 sample_document) 1730000000000 unprintable_request mem_start)
     = \<lparr>code = 500, sent = StringOf TypeError\<rparr> \<and>
   fileId_of empty_id_request = JUndefined \<and>
   figma_gets (new_calls mem_start
     (snd (webhook sample_config (mem_services 200 sample_document) 1730000000000 empty_id_request mem_start)))
     = [(''https://api.figma.com/v1/files/FILE1'', ''figd'')] \<and>
   branches_created (new_calls mem_start
     (snd (webhook sample_config (mem_services 200 sample_document) 1730000000000 empty_id_request mem_start)))
     = [''refs/heads/figma-sync/1730000000000'']"
  by (simp add: webhook_run_defs mem_run_defs unprintable_request_def empty_id_request_def
      new_calls_def topFrames_sample show_nat_one show_nat_first)

section \<open>The file set of a run\<close>

text \<open>The blob and tree requests of a publish that returns carry the files it was given.\<close>

lemma blob_contents_append: "blob_contents (xs @ ys) = blob_contents xs @ blob_contents ys"
  by (induction xs rule: blob_contents.induct) simp_all

lemma tree_paths_append: "tree_paths (xs @ ys) = tree_paths xs @ tree_paths ys"
  by (induction xs rule: tree_paths.induct) simp_all

lemma blobs_no_tree: "list_all is_blob ev \<Longrightarrow> tree_paths ev = []"
proof (induction ev)
  case Nil
  show ?case by simp
next
  case (Cons e ev)
  then show ?case by (cases e rule: is_blob.cases) simp_all
qed

lemma createBlobs_files:
  "createBlobs cfg oc files acc s = (Inr items, s') \<Longrightarrow>
   \<exists>ev. calls s' = calls s @ ev \<and> list_all is_blob ev \<and>
        blob_contents ev = map snd files \<and> map path items = map path acc @ map fst files"
proof (induction files arbitrary: acc s)
  case Nil
  then show ?case by (simp add: return_def)
next
  case (Cons f files)
  obtain p content where f: "f = (p, content)" by (cases f)
  let ?c = "GitCreateBlob (GH_OWNER cfg) (GH_REPO cfg) content ''utf-8''"
  from Cons.prems f obtain blob s1 where
    g: "github ?c Sha (git_createBlob oc (GH_OWNER cfg) (GH_REPO cfg) content ''utf-8'') s = (Inr blob, s1)" and
    r: "createBlobs cfg oc files (acc @ [\<lparr>path = p, mode = ''100644'', type = ''blob'', sha = blob\<rparr>]) s1
          = (Inr items, s')"
    by (auto dest: await_Inr)
  from github_step [OF g] have c1: "calls s1 = calls s @ [GitHub ?c (Inr (Sha blob))]"
    by simp
  from Cons.IH [OF r] obtain ev where
    "calls s' = calls s1 @ ev" "list_all is_blob ev" "blob_contents ev = map snd files"
    "map path items = map path (acc @ [\<lparr>path = p, mode = ''100644'', type = ''blob'', sha = blob\<rparr>]) @ map fst files"
    by blast
  with c1 f show ?case by simp
qed

lemma publish_files:
  assumes "publish cfg oc now baseBranch baseSha files s = (Inr url, s')"
  shows "\<exists>ev. calls s' = calls s @ ev \<and> blob_contents ev = map snd files \<and>
              tree_paths ev = [map fst files]"
  using assms unfolding publish_def Let_def
  apply (elim await_Inr [elim_format] exE conjE)
  apply (drule createBlobs_files)
  apply (drule github_step)+
  apply (elim exE conjE)
  apply (simp add: blob_contents_append tree_paths_append blobs_no_tree)
  done

lemma openPR_files:
  assumes "openPR cfg oc now files s = (Inr url, s')"
  shows "\<exists>ev. calls s' = calls s @ ev \<and> blob_contents ev = map snd files \<and>
              tree_paths ev = [map fst files]"
  using assms unfolding openPR_def Let_def
  apply (elim await_Inr [elim_format] exE conjE)
  apply (drule publish_files)
  apply (drule github_step)+
  apply (elim exE conjE)
  apply (simp add: blob_contents_append tree_paths_append)
  done

lemma tools_openPR_files:
  assumes "tools_openPR cfg oc now files s = (Inr u, s')"
  shows "\<exists>ev. calls s' = calls s @ ev \<and> blob_contents ev = map snd files \<and>
              tree_paths ev = [map fst files]"
  using assms unfolding tools_openPR_def
  apply (elim await_Inr [elim_format] exE conjE)
  apply (drule publish_files)
  apply (drule github_step)
  apply (elim exE conjE)
  apply (simp add: blob_contents_append tree_paths_append return_def)
  done

lemma webhook_files:
  assumes pass: "\<not> (truthy (fileId_of req) \<and> fileId_of req \<noteq> JStr (FIGMA_FILE_ID cfg))"
    and run: "webhook cfg srv now req s = (resp, s')"
    and ok: "code resp = 200"
    and fetched: "fst (fetchFigmaDoc cfg srv s) = Inr D"
  shows "\<exists>files. generateCode cfg D = Inr files \<and>
           blob_contents (new_calls s s') = map snd files \<and>
           tree_paths (new_calls s s') = [map fst files]"
proof -
  from webhook_cases [OF run] pass ok obtain doc s1 files url where
    f: "fetchFigmaDoc cfg srv s = (Inr doc, s1)" and
    g: "generateCode cfg doc = Inr files" and
    p: "openPR cfg (octo srv) now files s1 = (Inr url, s')"
    by auto
  from f fetched have d: "doc = D" by simp
  from fetchFigmaDoc_step [OF f]
  have c1: "calls s1 = calls s @
      [FigmaGet (''https://api.figma.com/v1/files/'' @ FIGMA_FILE_ID cfg) (FIGMA_TOKEN cfg)]"
    by simp
  from openPR_files [OF p] obtain ev where
    c2: "calls s' = calls s1 @ ev" and b: "blob_contents ev = map snd files" and
    t: "tree_paths ev = [map fst files]"
    by blast
  have "blob_contents (new_calls s s') = map snd files \<and>
        tree_paths (new_calls s s') = [map fst files]"
    using b t by (simp add: new_calls_def c1 c2)
  with g d show ?thesis by blast
qed

lemma tools_webhook_files:
  assumes run: "tools_webhook cfg srv now req s = (resp, s')"
    and ok: "code resp = 200"
    and fetched: "fst (tools_fetchFigmaDoc cfg srv s) = Inr D"
  shows "\<exists>files. tools_generateCode cfg D = Inr files \<and>
           blob_contents (new_calls s s') = map snd files \<and>
           tree_paths (new_calls s s') = [map fst files]"
proof -
  from tools_webhook_cases [OF run] ok obtain doc s1 files where
    f: "tools_fetchFigmaDoc cfg srv s = (Inr doc, s1)" and
    g: "tools_generateCode cfg doc = Inr files" and
    p: "tools_openPR cfg (octo srv) now files s1 = (Inr (), s')"
    by auto
  from f fetched have d: "doc = D" by simp
  from tools_fetchFigmaDoc_step [OF f]
  have c1: "calls s1 = calls s @
      [FigmaGet (''https://api.figma.com/v1/files/'' @ FIGMA_FILE_ID cfg) (FIGMA_TOKEN cfg)]"
    by simp
  from tools_openPR_files [OF p] obtain ev where
    c2: "calls s' = calls s1 @ ev" and b: "blob_contents ev = map snd files" and
    t: "tree_paths ev = [map fst files]"
    by blast
  have "blob_contents (new_calls s s') = map snd files \<and>
        tree_paths (new_calls s s') = [map fst files]"
    using b t by (simp add: new_calls_def c1 c2)
  with g d show ?thesis by blast
qed

lemma second_run_response: "fst second_run = \<lparr>code = 200, sent = Text ''OK''\<rparr>"
proof -
  have h1: "map_of (refs (host (snd first_run))) ''refs/heads/main'' = Some ''base-0''"
    using first_run_facts by simp
  have h2: "map_of (refs (host (snd first_run))) (''refs/heads/figma-sync/'' @ show_nat 1730000060000)
      = None"
    using first_run_facts by (simp add: show_nat_first show_nat_second)
  show ?thesis
    using mem_webhook_run [OF h1 h2] by (simp add: second_run_def)
qed

text \<open>
  C6. Normalising and generating twice from one document gives byte-identical file sets.
  Take any two runs of the handler under one configuration that fetch the same document
  \<open>D\<close>, pass the file filter and answer 200; the time, the request, the host, its state
  and its replies may all differ between them. Then the blob requests of the two runs
  carry the same contents in the same order and their tree requests the same paths, and
  these are the contents and paths of \<^verbatim>\<open>generateCode\<close> on \<open>D\<close>. The same holds for
  \<^verbatim>\<open>tools/figma-sync/server.js\<close>, where every run passes.
\<close>

theorem C6_two_runs_same_files:
  "(fst (fetchFigmaDoc cfg srv1 s1) = Inr D \<and> fst (fetchFigmaDoc cfg srv2 s2) = Inr D \<and>
      \<not> (truthy (fileId_of req1) \<and> fileId_of req1 \<noteq> JStr (FIGMA_FILE_ID cfg)) \<and>
      \<not> (truthy (fileId_of req2) \<and> fileId_of req2 \<noteq> JStr (FIGMA_FILE_ID cfg)) \<and>
      webhook cfg srv1 now1 req1 s1 = (resp1, s1') \<and> code resp1 = 200 \<and>
      webhook cfg srv2 now2 req2 s2 = (resp2, s2') \<and> code resp2 = 200 \<longrightarrow>
      blob_contents (new_calls s1 s1') = blob_contents (new_calls s2 s2') \<and>
      tree_paths (new_calls s1 s1') = tree_paths (new_calls s2 s2') \<and>
      (\<exists>files. generateCode cfg D = Inr files \<and>
         blob_contents (new_calls s1 s1') = map snd files \<and>
         tree_paths (new_calls s1 s1') = [map fst files])) \<and>
   (fst (tools_fetchFigmaDoc cfg srv1 s1) = Inr D \<and> fst (tools_fetchFigmaDoc cfg srv2 s2) = Inr D \<and>
      tools_webhook cfg srv1 now1 req1 s1 = (resp1', s1'') \<and> code resp1' = 200 \<and>
      tools_webhook cfg srv2 now2 req2 s2 = (resp2', s2'') \<and> code resp2' = 200 \<longrightarrow>
      blob_contents (new_calls s1 s1'') = blob_contents (new_calls s2 s2'') \<and>
      tree_paths (new_calls s1 s1'') = tree_paths (new_calls s2 s2'') \<and>
      (\<exists>files. tools_generateCode cfg D = Inr files \<and>
         blob_contents (new_calls s1 s1'') = map snd files \<and>
         tree_paths (new_calls s1 s1'') = [map fst files]))"
proof (rule conjI; rule impI; elim conjE)
  assume f1: "fst (fetchFigmaDoc cfg srv1 s1) = Inr D"
    and f2: "fst (fetchFigmaDoc cfg srv2 s2) = Inr D"
    and p1: "\<not> (truthy (fileId_of req1) \<and> fileId_of req1 \<noteq> JStr (FIGMA_FILE_ID cfg))"
    and p2: "\<not> (truthy (fileId_of req2) \<and> fileId_of req2 \<noteq> JStr (FIGMA_FILE_ID cfg))"
    and r1: "webhook cfg srv1 now1 req1 s1 = (resp1, s1')" and k1: "code resp1 = 200"
    and r2: "webhook cfg srv2 now2 req2 s2 = (resp2, s2')" and k2: "code resp2 = 200"
  from webhook_files [OF p1 r1 k1 f1] obtain files where
    g: "generateCode cfg D = Inr files" and
    a: "blob_contents (new_calls s1 s1') = map snd files"
       "tree_paths (new_calls s1 s1') = [map fst files]"
    by blast
  from webhook_files [OF p2 r2 k2 f2] g have
    b: "blob_contents (new_calls s2 s2') = map snd files"
       "tree_paths (new_calls s2 s2') = [map fst files]"
    by auto
  from g a b show "blob_contents (new_calls s1 s1') = blob_contents (new_calls s2 s2') \<and>
      tree_paths (new_calls s1 s1') = tree_paths (new_calls s2 s2') \<and>
      (\<exists>files. generateCode cfg D = Inr files \<and>
         blob_contents (new_calls s1 s1') = map snd files \<and>
         tree_paths (new_calls s1 s1') = [map fst files])"
    by simp
next
  assume f1: "fst (tools_fetchFigmaDoc cfg srv1 s1) = Inr D"
    and f2: "fst (tools_fetchFigmaDoc cfg srv2 s2) = Inr D"
    and r1: "tools_webhook cfg srv1 now1 req1 s1 = (resp1', s1'')" and k1: "code resp1' = 200"
    and r2: "tools_webhook cfg srv2 now2 req2 s2 = (resp2', s2'')" and k2: "code resp2' = 200"
  from tools_webhook_files [OF r1 k1 f1] obtain files where
    g: "tools_generateCode cfg D = Inr files" and
    a: "blob_contents (new_calls s1 s1'') = map snd files"
       "tree_paths (new_calls s1 s1'') = [map fst files]"
    by blast
  from tools_webhook_files [OF r2 k2 f2] g have
    b: "blob_contents (new_calls s2 s2'') = map snd files"
       "tree_paths (new_calls s2 s2'') = [map fst files]"
    by auto
  from g a b show "blob_contents (new_calls s1 s1'') = blob_contents (new_calls s2 s2'') \<and>
      tree_paths (new_calls s1 s1'') = tree_paths (new_calls s2 s2'') \<and>
      (\<exists>files. tools_generateCode cfg D = Inr files \<and>
         blob_contents (new_calls s1 s1'') = map snd files \<and>
         tree_paths (new_calls s1 s1'') = [map fst files])"
    by simp
qed

theorem C6_two_runs_same_files_witness:
  "fst (fetchFigmaDoc sample_config (mem_services 200 sample_document) mem_start)
     = Inr sample_document \<and>
   fst (fetchFigmaDoc sample_config (mem_services 200 sample_document) (snd first_run))
     = Inr sample_document \<and>
   code (fst first_run) = 200 \<and> code (fst second_run) = 200 \<and>
   blob_contents (new_calls mem_start (snd first_run))
     = blob_contents (new_calls (snd first_run) (snd second_run)) \<and>
   tree_paths (new_calls mem_start (snd first_run))
     = tree_paths (new_calls (snd first_run) (snd second_run)) \<and>
   (\<exists>files. generateCode sample_config sample_document = Inr files \<and>
      blob_contents (new_calls mem_start (snd first_run)) = map snd files \<and>
      tree_paths (new_calls mem_start (snd first_run)) = [map fst files])"
proof -
  have f1: "fst (fetchFigmaDoc sample_config (mem_services 200 sample_document) mem_start)
     = Inr sample_document"
    by (simp add: fetchFigmaDoc_def mem_services_def figma_serving_def ok_def)
  have f2: "fst (fetchFigmaDoc sample_config (mem_services 200 sample_document) (snd first_run))
     = Inr sample_document"
    by (simp add: fetchFigmaDoc_def mem_services_def figma_serving_def ok_def)
  have p: "\<not> (truthy (fileId_of sample_request) \<and>
        fileId_of sample_request \<noteq> JStr (FIGMA_FILE_ID sample_config))"
    by (simp add: fileId_of_def sample_request_def js_or_def sample_config_def)
  have r1: "webhook sample_config (mem_services 200 sample_document) 1730000000000 sample_request
      mem_start = (fst first_run, snd first_run)"
    by (simp add: first_run_def)
  have r2: "webhook sample_config (mem_services 200 sample_document) 1730000060000 sample_request
      (snd first_run) = (fst second_run, snd second_run)"
    by (simp add: second_run_def)
  have k1: "code (fst first_run) = 200"
    using first_run_facts by simp
  have k2: "code (fst second_run) = 200"
    by (simp add: second_run_response)
  show ?thesis
    using f1 f2 k1 k2
      C6_two_runs_same_files [THEN conjunct1, rule_format,
        OF conjI [OF f1 conjI [OF f2 conjI [OF p conjI [OF p conjI [OF r1 conjI [OF k1
           conjI [OF r2 k2]]]]]]]]
    by blast
qed

end
